theory Spec2Isabelle
  imports Main "HOL-Library.Word"
begin

unbundle bit_operations_syntax

section \<open>Scalar types, result codes and sentinels\<close>

text \<open>
  \<^verbatim>\<open>src/flogfs.c\<close> includes \<^verbatim>\<open>flogfs_private.h\<close>, which holds the scalar typedefs,
  the record layouts and the media constants. The widths below are the ones the
  C file itself shows: a block index travels as \<^verbatim>\<open>uint16_t\<close> through
  \<^verbatim>\<open>flog_open_page\<close>, timestamps and ages are compared with \<^verbatim>\<open>0xFFFFFFFF\<close>,
  and a file id is stored into the \<^verbatim>\<open>uint32_t max_file_id\<close>.
\<close>

type_synonym byte = "8 word"
type_synonym flog_block_idx_t = "16 word"
type_synonym flog_block_age_t = "32 word"
type_synonym flog_file_id_t = "32 word"
type_synonym flog_timestamp_t = "32 word"
type_synonym flog_inode_index_t = "16 word"

text \<open>\<^verbatim>\<open>flog_result_t\<close>: the C code tests \<^verbatim>\<open>!flash_open_page(..)\<close>, so failure is the
  zero value and success the non-zero one.\<close>

datatype flog_result_t = FLOG_FAILURE | FLOG_SUCCESS

text \<open>Modelled from the spec: \<^verbatim>\<open>flog_state_t\<close> is declared in the absent header. The C
  file names \<^verbatim>\<open>FLOG_STATE_RESET\<close> only; the second value stands for the mounted
  state of which the specification speaks. No function of this file assigns it.\<close>

datatype flog_state_t = FLOG_STATE_RESET | FLOG_STATE_MOUNTED

text \<open>Modelled from the spec: the sentinels of the absent header. Section 6 of the
  specification: every unprogrammed sentinel is the all-ones pattern of its width.\<close>

definition FLOG_BLOCK_IDX_INVALID :: flog_block_idx_t where
  "FLOG_BLOCK_IDX_INVALID = 0xFFFF"

definition FLOG_FILE_ID_INVALID :: flog_file_id_t where
  "FLOG_FILE_ID_INVALID = 0xFFFFFFFF"

definition FLOG_TIMESTAMP_INVALID :: flog_timestamp_t where
  "FLOG_TIMESTAMP_INVALID = 0xFFFFFFFF"

text \<open>The media constants of the absent header are parameters of every function,
  and so is one thing that the build decides. \<^verbatim>\<open>flogfs_mount\<close> reads
  \<^verbatim>\<open>sizeof(flog_file_header_t)\<close> bytes into a union of 8 bytes (flogfs.c 445) and
  so writes past it, over whatever the compiler placed behind the union; the C
  standard gives the program no defined behaviour from there on. Of mount's
  locals only \<^verbatim>\<open>last_deletion.file_id\<close> and \<^verbatim>\<open>last_deletion.last_block\<close> are read
  after that read without being written first. \<open>mount_stack_overrun c bytes
  (file_id, last_block)\<close> is what the build makes of the two when \<open>bytes\<close> are
  written past the union: \<open>Some\<close> of their values afterwards, or \<open>None\<close> when the
  program does not go on in a defined way.\<close>

record flog_config =
  FS_NUM_BLOCKS :: nat
  FS_PAGES_PER_BLOCK :: nat
  FS_SECTORS_PER_PAGE :: nat
  FLOG_MAX_FNAME_LEN :: nat
  FLOG_INODE_TAIL_SECTOR :: nat
  FLOG_INODE_INVALIDATION_SECTOR :: nat
  FLOG_FILE_TAIL_SECTOR :: nat
  FLOG_FILE_INVALIDATION_SECTOR :: nat
  FLOG_BLOCK_TYPE_INODE :: byte
  FLOG_BLOCK_TYPE_FILE :: byte
  FLOG_BLOCK_TYPE_UNALLOCATED :: byte
  mount_stack_overrun ::
    "byte list \<Rightarrow> flog_file_id_t \<times> flog_block_idx_t \<Rightarrow> (flog_file_id_t \<times> flog_block_idx_t) option"

section \<open>Sector buffers and record layouts\<close>

text \<open>
  The C code reads raw sector bytes into stack buffers that overlay several
  record shapes (unions). A buffer is a list of bytes; a field is decoded
  little-endian at its byte offset.
\<close>

definition le16 :: "byte list \<Rightarrow> nat \<Rightarrow> 16 word" where
  "le16 buf i = ucast (buf ! i) OR push_bit 8 (ucast (buf ! (i + 1)))"

definition le32 :: "byte list \<Rightarrow> nat \<Rightarrow> 32 word" where
  "le32 buf i = ucast (buf ! i) OR push_bit 8 (ucast (buf ! (i + 1)))
      OR push_bit 16 (ucast (buf ! (i + 2))) OR push_bit 24 (ucast (buf ! (i + 3)))"

definition enc16 :: "16 word \<Rightarrow> byte list" where
  "enc16 w = [ucast w, ucast (drop_bit 8 w)]"

definition enc32 :: "32 word \<Rightarrow> byte list" where
  "enc32 w = [ucast w, ucast (drop_bit 8 w), ucast (drop_bit 16 w), ucast (drop_bit 24 w)]"

text \<open>A read of \<open>n\<close> bytes into a buffer overwrites its first \<open>n\<close> bytes and leaves
  the rest of the union as it was.\<close>

definition buf_load :: "byte list \<Rightarrow> byte list \<Rightarrow> byte list" where
  "buf_load new old = new @ drop (length new) old"

text \<open>Modelled from the spec: the record layouts of the absent header, in the
  field order of section 3 where the C file does not fix it, with natural
  alignment. The C file fixes that the timestamp is the first field of an inode
  invalidation record and of an inode block's invalidation sector, and that
  \<^verbatim>\<open>next_block\<close> is the first field of an inode tail sector (each is read alone
  at offset 0).

  \<^item> \<^verbatim>\<open>flog_inode_sector0_t\<close>: age at 0, timestamp at 4 (8 bytes)
  \<^item> \<^verbatim>\<open>flog_file_sector0_header_t\<close>: age at 0, file_id at 4 (8 bytes)
  \<^item> \<^verbatim>\<open>flog_file_tail_sector_header_t\<close>: next_block at 0, next_age at 4,
    timestamp at 8 (12 bytes)
  \<^item> \<^verbatim>\<open>flog_inode_file_allocation_header_t\<close>: file_id at 0, first_block at 4,
    first_block_age at 8, timestamp at 12 (16 bytes); the filename follows at 16
  \<^item> \<^verbatim>\<open>flog_inode_file_invalidation_t\<close>: timestamp at 0, last_block at 4 (8 bytes)
  \<^item> \<^verbatim>\<open>flog_file_invalidation_sector_t\<close>: timestamp at 0 (4 bytes)
  \<^item> spares (4 bytes): type_id at 0, nothing at 1, inode_index or nbytes at 2
\<close>

text \<open>The size of a record whose strictest member is a 32-bit word is a multiple
  of 4: the compiler pads a trailing \<^verbatim>\<open>char\<close> array.\<close>

definition align4 :: "nat \<Rightarrow> nat" where
  "align4 n = 4 * ((n + 3) div 4)"

definition sizeof_flog_block_idx_t :: nat where "sizeof_flog_block_idx_t = 2"
definition sizeof_flog_timestamp_t :: nat where "sizeof_flog_timestamp_t = 4"
definition sizeof_flog_inode_sector0_t :: nat where "sizeof_flog_inode_sector0_t = 8"
definition sizeof_flog_file_sector0_header_t :: nat where "sizeof_flog_file_sector0_header_t = 8"
definition sizeof_flog_file_tail_sector_header_t :: nat where
  "sizeof_flog_file_tail_sector_header_t = 12"
definition sizeof_flog_inode_file_allocation_header_t :: nat where
  "sizeof_flog_inode_file_allocation_header_t = 16"
definition sizeof_flog_inode_file_allocation_t :: "flog_config \<Rightarrow> nat" where
  "sizeof_flog_inode_file_allocation_t c = 16 + align4 (FLOG_MAX_FNAME_LEN c)"
definition sizeof_flog_inode_file_invalidation_t :: nat where
  "sizeof_flog_inode_file_invalidation_t = 8"
definition sizeof_flog_file_invalidation_sector_t :: nat where
  "sizeof_flog_file_invalidation_sector_t = 4"
definition sizeof_spare :: nat where "sizeof_spare = 4"

lemmas sizeof_defs =
  sizeof_flog_block_idx_t_def sizeof_flog_timestamp_t_def sizeof_flog_inode_sector0_t_def
  sizeof_flog_file_sector0_header_t_def sizeof_flog_file_tail_sector_header_t_def
  sizeof_flog_inode_file_allocation_header_t_def sizeof_flog_inode_file_allocation_t_def
  sizeof_flog_inode_file_invalidation_t_def sizeof_flog_file_invalidation_sector_t_def
  sizeof_spare_def align4_def

section \<open>The flash driver\<close>

text \<open>
  Modelled from the spec: the flash driver is an external collaborator (sections 1
  and 6 of the specification); the C file only calls it. It is modelled as a
  simulated NAND array:
  \<^item> \<open>store f b s\<close> and \<open>spares f b s\<close> are the data and spare bytes of sector \<open>s\<close>
    (counted from the start of the block) of block \<open>b\<close>; an erased byte is \<open>0xFF\<close>;
  \<^item> programming can only clear bits (the new byte is the old one AND the data);
  \<^item> \<open>bad f b\<close> is the factory bad-block mark, \<open>worn f b\<close> says that erasing \<open>b\<close> fails;
  \<^item> \<open>cur f\<close> is the page opened last (\<open>None\<close> when that open failed); a sector
    argument selects sector \<open>s mod FS_SECTORS_PER_PAGE\<close> of the open page;
  \<^item> opening fails exactly outside the geometry of the medium;
  \<^item> \<open>init_fails f\<close> says that the driver's \<^verbatim>\<open>flash_init\<close> reports failure;
  \<^item> \<open>calls f\<close> logs every driver call, oldest first.
\<close>

datatype flash_call =
    Call_init
  | Call_lock
  | Call_unlock
  | Call_open_page nat nat
  | Call_close_page
  | Call_block_is_bad
  | Call_read_sector nat nat nat
  | Call_read_spare nat
  | Call_write_sector "byte list" nat nat nat
  | Call_write_spare "byte list" nat
  | Call_commit
  | Call_erase_block nat
  | Call_debug_warn
  | Call_debug_error

record flash =
  store :: "nat \<Rightarrow> nat \<Rightarrow> nat \<Rightarrow> byte"
  spares :: "nat \<Rightarrow> nat \<Rightarrow> nat \<Rightarrow> byte"
  bad :: "nat \<Rightarrow> bool"
  worn :: "nat \<Rightarrow> bool"
  init_fails :: bool
  cur :: "(nat \<times> nat) option"
  locked :: bool
  calls :: "flash_call list"

definition log_call :: "flash_call \<Rightarrow> flash \<Rightarrow> flash" where
  "log_call x f = f\<lparr>calls := calls f @ [x]\<rparr>"

definition sector_index :: "flog_config \<Rightarrow> nat \<Rightarrow> nat \<Rightarrow> nat" where
  "sector_index c page sector = page * FS_SECTORS_PER_PAGE c + sector mod FS_SECTORS_PER_PAGE c"

definition flash_init :: "flash \<Rightarrow> flog_result_t \<times> flash" where
  "flash_init f =
     (if init_fails f then FLOG_FAILURE else FLOG_SUCCESS, log_call Call_init f)"

definition flash_lock :: "flash \<Rightarrow> flash" where
  "flash_lock f = log_call Call_lock (f\<lparr>locked := True\<rparr>)"

definition flash_unlock :: "flash \<Rightarrow> flash" where
  "flash_unlock f = log_call Call_unlock (f\<lparr>locked := False\<rparr>)"

definition flash_open_page :: "flog_config \<Rightarrow> nat \<Rightarrow> nat \<Rightarrow> flash \<Rightarrow> flog_result_t \<times> flash" where
  "flash_open_page c block page f =
     (if block < FS_NUM_BLOCKS c \<and> page < FS_PAGES_PER_BLOCK c
      then (FLOG_SUCCESS, log_call (Call_open_page block page) (f\<lparr>cur := Some (block, page)\<rparr>))
      else (FLOG_FAILURE, log_call (Call_open_page block page) (f\<lparr>cur := None\<rparr>)))"

definition flash_close_page :: "flash \<Rightarrow> flash" where
  "flash_close_page f = log_call Call_close_page (f\<lparr>cur := None\<rparr>)"

definition flash_block_is_bad :: "flash \<Rightarrow> bool \<times> flash" where
  "flash_block_is_bad f =
     ((case cur f of None \<Rightarrow> True | Some (b, p) \<Rightarrow> bad f b), log_call Call_block_is_bad f)"

definition flash_read_sector :: "flog_config \<Rightarrow> nat \<Rightarrow> nat \<Rightarrow> nat \<Rightarrow> flash \<Rightarrow> byte list \<times> flash" where
  "flash_read_sector c sector offset n f =
     ((case cur f of
         None \<Rightarrow> replicate n 0xFF
       | Some (b, p) \<Rightarrow> map (\<lambda>i. store f b (sector_index c p sector) (offset + i)) [0..<n]),
      log_call (Call_read_sector sector offset n) f)"

definition flash_read_spare :: "flog_config \<Rightarrow> nat \<Rightarrow> flash \<Rightarrow> byte list \<times> flash" where
  "flash_read_spare c sector f =
     ((case cur f of
         None \<Rightarrow> replicate sizeof_spare 0xFF
       | Some (b, p) \<Rightarrow> map (\<lambda>i. spares f b (sector_index c p sector) i) [0..<sizeof_spare]),
      log_call (Call_read_spare sector) f)"

definition program :: "(nat \<Rightarrow> byte) \<Rightarrow> byte list \<Rightarrow> nat \<Rightarrow> nat \<Rightarrow> nat \<Rightarrow> byte" where
  "program old src offset n =
     (\<lambda>i. if offset \<le> i \<and> i < offset + n then old i AND src ! (i - offset) else old i)"

definition flash_write_sector :: "flog_config \<Rightarrow> byte list \<Rightarrow> nat \<Rightarrow> nat \<Rightarrow> nat \<Rightarrow> flash \<Rightarrow> flash" where
  "flash_write_sector c src sector offset n f =
     log_call (Call_write_sector (take n src) sector offset n)
       (case cur f of
          None \<Rightarrow> f
        | Some (b, p) \<Rightarrow>
            f\<lparr>store := (store f)(b := (store f b)(sector_index c p sector :=
                 program (store f b (sector_index c p sector)) src offset n))\<rparr>)"

definition flash_write_spare :: "flog_config \<Rightarrow> byte list \<Rightarrow> nat \<Rightarrow> flash \<Rightarrow> flash" where
  "flash_write_spare c src sector f =
     log_call (Call_write_spare (take sizeof_spare src) sector)
       (case cur f of
          None \<Rightarrow> f
        | Some (b, p) \<Rightarrow>
            f\<lparr>spares := (spares f)(b := (spares f b)(sector_index c p sector :=
                 program (spares f b (sector_index c p sector)) src 0 sizeof_spare))\<rparr>)"

definition flash_commit :: "flash \<Rightarrow> flash" where
  "flash_commit f = log_call Call_commit f"

definition flash_erase_block :: "flog_config \<Rightarrow> nat \<Rightarrow> flash \<Rightarrow> flog_result_t \<times> flash" where
  "flash_erase_block c block f =
     (if block < FS_NUM_BLOCKS c \<and> \<not> worn f block
      then (FLOG_SUCCESS,
            log_call (Call_erase_block block)
              (f\<lparr>store := (store f)(block := (\<lambda>s i. 0xFF)),
                 spares := (spares f)(block := (\<lambda>s i. 0xFF))\<rparr>))
      else (FLOG_FAILURE, log_call (Call_erase_block block) f))"

definition flash_debug_warn :: "flash \<Rightarrow> flash" where
  "flash_debug_warn f = log_call Call_debug_warn f"

definition flash_debug_error :: "flash \<Rightarrow> flash" where
  "flash_debug_error f = log_call Call_debug_error f"

lemmas flash_defs =
  log_call_def flash_init_def flash_lock_def flash_unlock_def flash_open_page_def
  flash_close_page_def flash_block_is_bad_def flash_read_sector_def flash_read_spare_def
  flash_write_sector_def flash_write_spare_def flash_commit_def flash_erase_block_def
  flash_debug_warn_def flash_debug_error_def

section \<open>The filesystem state\<close>

text \<open>\<^verbatim>\<open>flogfs_t\<close>, the one static instance \<^verbatim>\<open>flogfs\<close>. The two list heads are pointers
  that this file never dereferences (\<open>None\<close> is \<^verbatim>\<open>NULL\<close>); \<open>lock\<close> is the FS mutex,
  held or not.\<close>

record flogfs_t =
  read_head :: "nat option"
  write_head :: "nat option"
  max_file_id :: "32 word"
  max_block_sequence :: "32 word"
  first_age_table_block :: "16 word"
  first_file_table_block :: "16 word"
  state :: flog_state_t
  t :: flog_timestamp_t
  inode0 :: flog_block_idx_t
  num_files :: flog_file_id_t
  num_free_blocks :: flog_block_idx_t
  current_open_block :: flog_block_idx_t
  current_open_page :: "16 word"
  page_open :: "8 word"
  page_open_result :: flog_result_t
  lock :: bool

text \<open>\<^verbatim>\<open>flog_inode_iterator_t\<close>.\<close>

record flog_inode_iterator_t =
  it_block :: flog_block_idx_t
  it_next_block :: flog_block_idx_t
  it_inode_idx :: "32 word"
  it_sector :: "16 word"

text \<open>The in-memory state and the flash travel together through every call.\<close>

type_synonym world = "flogfs_t \<times> flash"

definition fs_lock :: "flogfs_t \<Rightarrow> flogfs_t" where
  "fs_lock s = s\<lparr>lock := True\<rparr>"

definition fs_unlock :: "flogfs_t \<Rightarrow> flogfs_t" where
  "fs_unlock s = s\<lparr>lock := False\<rparr>"

section \<open>The page cache\<close>

definition flog_open_page :: "flog_config \<Rightarrow> 16 word \<Rightarrow> 16 word \<Rightarrow> world \<Rightarrow> flog_result_t \<times> world" where
  "flog_open_page c block page w =
     (case w of (s, f) \<Rightarrow>
        if page_open s \<noteq> 0 \<and> current_open_block s = block \<and> current_open_page s = page
        then (page_open_result s, (s, f))
        else
          (case flash_open_page c (unat block) (unat page) f of (r, f') \<Rightarrow>
             (r, (s\<lparr>page_open_result := r, page_open := 1,
                    current_open_block := block, current_open_page := page\<rparr>, f'))))"

text \<open>\<^verbatim>\<open>sector / FS_SECTORS_PER_PAGE\<close> is computed in \<^verbatim>\<open>int\<close> and narrowed to the
  \<^verbatim>\<open>uint16_t\<close> page parameter.\<close>

definition flog_open_sector :: "flog_config \<Rightarrow> 16 word \<Rightarrow> 16 word \<Rightarrow> world \<Rightarrow> flog_result_t \<times> world" where
  "flog_open_sector c block sector w =
     flog_open_page c block (of_nat (unat sector div FS_SECTORS_PER_PAGE c)) w"

definition flog_close_sector :: "flogfs_t \<Rightarrow> flogfs_t" where
  "flog_close_sector s = s\<lparr>page_open := 0\<rparr>"

section \<open>The inode iterator\<close>

definition flog_inode_iterator_init ::
  "flog_config \<Rightarrow> flog_block_idx_t \<Rightarrow> world \<Rightarrow> flog_inode_iterator_t \<times> world" where
  "flog_inode_iterator_init c inode0_arg w =
     (case flog_open_page c inode0_arg 0 w of (r, (s, f)) \<Rightarrow>
      case flash_read_sector c (FLOG_INODE_TAIL_SECTOR c) 0 sizeof_flog_block_idx_t f of
        (buf, f') \<Rightarrow>
          (\<lparr>it_block = inode0_arg, it_next_block = le16 buf 0, it_inode_idx = 0,
            it_sector = of_nat (FS_SECTORS_PER_PAGE c)\<rparr>, (s, f')))"

definition flog_inode_iterator_next ::
  "flog_config \<Rightarrow> flog_inode_iterator_t \<Rightarrow> world \<Rightarrow> flog_inode_iterator_t \<times> world" where
  "flog_inode_iterator_next c iter w =
     (let iter1 = iter\<lparr>it_sector := it_sector iter + 2, it_inode_idx := it_inode_idx iter + 1\<rparr>
      in if unat (it_sector iter1) \<ge> FS_PAGES_PER_BLOCK c * FS_SECTORS_PER_PAGE c
         then
           (let iter2 = iter1\<lparr>it_block := it_next_block iter1\<rparr> in
            case flog_open_page c (it_block iter2) 0 w of (r, (s, f)) \<Rightarrow>
            case flash_read_sector c (FLOG_INODE_TAIL_SECTOR c) 0 sizeof_flog_block_idx_t f of
              (buf, f') \<Rightarrow>
                (iter2\<lparr>it_next_block := le16 buf 0,
                       it_sector := of_nat (FS_SECTORS_PER_PAGE c)\<rparr>, (s, f')))
         else (iter1, w))"

section \<open>Initialisation and format\<close>

text \<open>The static \<^verbatim>\<open>flogfs\<close> before any call: C zero-initialises it.\<close>

definition flogfs_static :: flogfs_t where
  "flogfs_static =
     \<lparr>read_head = None, write_head = None, max_file_id = 0, max_block_sequence = 0,
      first_age_table_block = 0, first_file_table_block = 0, state = FLOG_STATE_RESET,
      t = 0, inode0 = 0, num_files = 0, num_free_blocks = 0, current_open_block = 0,
      current_open_page = 0, page_open = 0, page_open_result = FLOG_FAILURE, lock = False\<rparr>"

definition flogfs_init :: "world \<Rightarrow> flog_result_t \<times> world" where
  "flogfs_init w =
     (case w of (s, f) \<Rightarrow>
      case flash_init f of (r, f') \<Rightarrow>
        (r, (s\<lparr>state := FLOG_STATE_RESET, max_file_id := 0, max_block_sequence := 0,
               page_open := 0\<rparr>, f')))"

text \<open>A store of \<open>src\<close> into a union buffer at byte offset \<open>off\<close>.\<close>

definition buf_store :: "byte list \<Rightarrow> nat \<Rightarrow> byte list \<Rightarrow> byte list" where
  "buf_store buf off src = take off buf @ src @ drop (off + length src) buf"

text \<open>The erase loop of \<^verbatim>\<open>flogfs_format\<close> over the block indices still to visit; it
  leaves the loop with \<open>FLOG_FAILURE\<close> at the first failed erase.\<close>

fun format_erase :: "flog_config \<Rightarrow> nat list \<Rightarrow> flash \<Rightarrow> flog_result_t \<times> flash" where
  "format_erase c [] f = (FLOG_SUCCESS, f)"
| "format_erase c (i # rest) f =
     (case flash_open_page c i 0 f of (r, f1) \<Rightarrow>
      case flash_block_is_bad f1 of (b, f2) \<Rightarrow>
        if \<not> b then
          (case flash_erase_block c i f2 of (e, f3) \<Rightarrow>
             if e = FLOG_FAILURE then (FLOG_FAILURE, f3) else format_erase c rest f3)
        else format_erase c rest f2)"

text \<open>\<^verbatim>\<open>main_buffer\<close> and \<^verbatim>\<open>spare_buffer\<close> share one union: the spare is written from
  the bytes of the sector-0 record with \<^verbatim>\<open>inode_index\<close> and \<^verbatim>\<open>type_id\<close> stored over
  them.\<close>

definition flogfs_format :: "flog_config \<Rightarrow> world \<Rightarrow> flog_result_t \<times> world" where
  "flogfs_format c w =
     (case w of (s, f) \<Rightarrow>
      let s1 = fs_lock s in
      case format_erase c [0..<FS_NUM_BLOCKS c] f of (e, f1) \<Rightarrow>
        if e = FLOG_FAILURE then (FLOG_FAILURE, (fs_unlock s1, flash_unlock f1))
        else
          (case flash_open_page c 0 0 f1 of (r, f2) \<Rightarrow>
           let main_buffer = enc32 0 @ enc32 0;
               f3 = flash_write_sector c main_buffer 0 0 sizeof_flog_inode_sector0_t f2;
               spare_buffer = buf_store (buf_store main_buffer 2 (enc16 0)) 0
                                [FLOG_BLOCK_TYPE_INODE c];
               f4 = flash_write_spare c spare_buffer 0 f3;
               f5 = flash_commit f4;
               f6 = flash_close_page f5
           in (FLOG_SUCCESS, (fs_unlock s1, flash_unlock f6))))"

section \<open>Mount\<close>

text \<open>The locals of \<^verbatim>\<open>flogfs_mount\<close>. C leaves \<^verbatim>\<open>last_allocation.age\<close>,
  \<^verbatim>\<open>last_allocation.file_id\<close>, \<^verbatim>\<open>last_deletion.first_block\<close> and
  \<^verbatim>\<open>last_deletion.last_block\<close> uninitialised; each is read only after a timestamp
  above 0 was stored together with it, so the model starts them at 0.\<close>

record last_allocation_t =
  la_block :: flog_block_idx_t
  la_age :: flog_block_age_t
  la_file_id :: flog_file_id_t
  la_timestamp :: flog_timestamp_t

record last_deletion_t =
  ld_first_block :: flog_block_idx_t
  ld_last_block :: flog_block_idx_t
  ld_file_id :: flog_file_id_t
  ld_timestamp :: flog_timestamp_t

record mount_locals =
  last_allocation :: last_allocation_t
  ms_num_free_blocks :: flog_block_idx_t
  min_age_block_block :: flog_block_idx_t
  min_age_block_age :: flog_block_age_t
  inode0_idx :: flog_block_idx_t
  max_block_age :: flog_block_age_t

definition mount_locals_init :: mount_locals where
  "mount_locals_init =
     \<lparr>last_allocation = \<lparr>la_block = FLOG_BLOCK_IDX_INVALID, la_age = 0, la_file_id = 0,
                          la_timestamp = 0\<rparr>,
      ms_num_free_blocks = 0,
      min_age_block_block = FLOG_BLOCK_IDX_INVALID,
      min_age_block_age = 0xFFFFFFFF,
      inode0_idx = FLOG_BLOCK_IDX_INVALID,
      max_block_age = 0\<rparr>"

definition last_deletion_init :: last_deletion_t where
  "last_deletion_init =
     \<lparr>ld_first_block = 0, ld_last_block = 0, ld_file_id = FLOG_FILE_ID_INVALID,
      ld_timestamp = 0\<rparr>"

text \<open>Pass 1, the body of the loop over all blocks (\<^verbatim>\<open>continue\<close> leaves the body).\<close>

definition mount_scan_block :: "flog_config \<Rightarrow> nat \<Rightarrow> mount_locals \<times> flash \<Rightarrow> mount_locals \<times> flash" where
  "mount_scan_block c i st =
     (case st of (m, f) \<Rightarrow>
      case flash_open_page c i 0 f of (r, f1) \<Rightarrow>
      if r = FLOG_FAILURE then (m, f1)
      else
        case flash_block_is_bad f1 of (b, f2) \<Rightarrow>
        if b then (m, f2)
        else
          case flash_read_spare c 0 f2 of (spare_buffer, f3) \<Rightarrow>
          if spare_buffer ! 0 = FLOG_BLOCK_TYPE_INODE c then
            (case flash_read_sector c (FLOG_INODE_INVALIDATION_SECTOR c) 0
                    sizeof_flog_timestamp_t f3 of (timestamp_buffer, f4) \<Rightarrow>
             case flash_read_sector c 0 0 sizeof_flog_inode_sector0_t f4 of (sector0_buffer, f5) \<Rightarrow>
             let m1 = (if le32 timestamp_buffer 0 = 0xFFFFFFFF
                       then (if le16 spare_buffer 2 = 0 then m\<lparr>inode0_idx := of_nat i\<rparr> else m)
                       else m);
                 m2 = (if le32 sector0_buffer 0 > max_block_age m1
                       then m1\<lparr>max_block_age := le32 sector0_buffer 0\<rparr> else m1)
             in (m2, f5))
          else if spare_buffer ! 0 = FLOG_BLOCK_TYPE_FILE c then
            (case flash_read_sector c (FLOG_FILE_TAIL_SECTOR c) 0
                    sizeof_flog_file_tail_sector_header_t f3 of (sector_buffer, f4) \<Rightarrow>
             case flash_read_sector c 0 0 sizeof_flog_file_sector0_header_t f4 of
               (sector0_buffer, f5) \<Rightarrow>
             let m1 = (if le32 sector_buffer 8 = 0xFFFFFFFF then m
                       else if le32 sector_buffer 8 > la_timestamp (last_allocation m)
                       then m\<lparr>last_allocation :=
                              \<lparr>la_block = le16 sector_buffer 0,
                               la_age = le32 sector_buffer 4,
                               la_file_id = le32 sector0_buffer 4,
                               la_timestamp = le32 sector_buffer 8\<rparr>\<rparr>
                       else m);
                 m2 = (if le32 sector0_buffer 0 > max_block_age m1
                       then m1\<lparr>max_block_age := le32 sector0_buffer 0\<rparr> else m1)
             in (m2, f5))
          else if spare_buffer ! 0 = FLOG_BLOCK_TYPE_UNALLOCATED c then
            (m\<lparr>ms_num_free_blocks := ms_num_free_blocks m + 1\<rparr>, f3)
          else (m, f3))"

definition mount_scan :: "flog_config \<Rightarrow> flash \<Rightarrow> mount_locals \<times> flash" where
  "mount_scan c f = fold (mount_scan_block c) [0..<FS_NUM_BLOCKS c] (mount_locals_init, f)"

text \<open>Pass 2, the walk of the inode chain. The C loop has no bound of its own: it
  ends only at an allocation record whose file id is invalid. The model counts
  the iterations left; \<open>None\<close> says that the walk did not end within them.\<close>

fun mount_walk ::
  "nat \<Rightarrow> flog_config \<Rightarrow> flog_inode_iterator_t \<Rightarrow> last_allocation_t \<Rightarrow> last_deletion_t \<Rightarrow> world
     \<Rightarrow> (last_allocation_t \<times> last_deletion_t \<times> world) option" where
  "mount_walk 0 c iter la ld w = None"
| "mount_walk (Suc n) c iter la ld w =
     (case flog_open_sector c (it_block iter) (it_sector iter) w of (r1, (s1, f1)) \<Rightarrow>
      case flash_read_sector c (unat (it_sector iter)) 0
             sizeof_flog_inode_file_allocation_header_t f1 of (sector_buffer, f2) \<Rightarrow>
      if le32 sector_buffer 0 = FLOG_FILE_ID_INVALID then Some (la, ld, (s1, f2))
      else
        case flog_open_sector c (it_block iter) (it_sector iter + 1) (s1, f2) of
          (r2, (s2, f3)) \<Rightarrow>
        case flash_read_sector c (unat (it_sector iter) + 1) 0
               sizeof_flog_inode_file_invalidation_t f3 of (sector0_buffer, f4) \<Rightarrow>
        let s3 = s2\<lparr>max_file_id := le32 sector_buffer 0\<rparr>;
            la' = (if le32 sector0_buffer 0 = FLOG_TIMESTAMP_INVALID
                     \<and> le32 sector_buffer 12 > la_timestamp la
                   then \<lparr>la_block = le16 sector_buffer 4,
                         la_age = le32 sector_buffer 8,
                         la_file_id = le32 sector_buffer 0,
                         la_timestamp = le32 sector_buffer 12\<rparr>
                   else la);
            ld' = (if le32 sector0_buffer 0 \<noteq> FLOG_TIMESTAMP_INVALID
                     \<and> le32 sector0_buffer 0 > ld_timestamp ld
                   then \<lparr>ld_first_block = le16 sector_buffer 4,
                         ld_last_block = le16 sector0_buffer 4,
                         ld_file_id = le32 sector_buffer 0,
                         ld_timestamp = le32 sector0_buffer 0\<rparr>
                   else ld)
        in case flog_inode_iterator_next c iter (s3, f4) of (iter', w') \<Rightarrow>
             mount_walk n c iter' la' ld' w')"

text \<open>Pass 3, first half: check and (maybe) clean the last allocation.\<close>

definition mount_check_allocation :: "flog_config \<Rightarrow> last_allocation_t \<Rightarrow> world \<Rightarrow> world" where
  "mount_check_allocation c la w =
     (if la_timestamp la > 0 then
        (case flog_open_sector c (la_block la) 0 w of (r, (s1, f1)) \<Rightarrow>
         case flash_read_sector c 0 0 sizeof_flog_file_sector0_header_t f1 of
           (sector0_buffer, f2) \<Rightarrow>
         if le32 sector0_buffer 4 \<noteq> la_file_id la then
           (case flash_erase_block c (unat (la_block la)) f2 of (e, f3) \<Rightarrow>
            case flog_open_page c (la_block la) 0 (s1, f3) of (r', (s2, f4)) \<Rightarrow>
            let sector0_buffer' =
                  buf_store (buf_store sector0_buffer 0 (enc32 (la_age la))) 4
                    (enc32 (la_file_id la));
                f5 = flash_write_sector c sector0_buffer' 0 0
                       sizeof_flog_file_sector0_header_t f4;
                spare_buffer = [FLOG_BLOCK_TYPE_FILE c, 0] @ enc16 0;
                f6 = flash_write_spare c spare_buffer 0 f5;
                f7 = flash_commit f6
            in (s2\<lparr>t := la_timestamp la + 1\<rparr>, f7))
         else (s1, f2))
      else w)"

text \<open>\<^verbatim>\<open>flog_file_header_t\<close> is declared in the C file (flogfs.c 47-56): a tag of
  three 32-bit words and \<^verbatim>\<open>char filename[FLOG_MAX_FNAME_LEN]\<close>, padded to a
  multiple of 4 bytes.\<close>

definition sizeof_flog_file_header_t :: "flog_config \<Rightarrow> nat" where
  "sizeof_flog_file_header_t c = 12 + align4 (FLOG_MAX_FNAME_LEN c)"

text \<open>Pass 3, second half: verify the completion of the most recent deletion.
  The read of \<^verbatim>\<open>sizeof(flog_file_header_t)\<close> bytes fills the 8-byte union
  \<^verbatim>\<open>sector0_buffer\<close> and writes the rest past it; \<open>mount_stack_overrun\<close> says what
  \<^verbatim>\<open>last_deletion\<close> holds afterwards. The result is \<open>None\<close> when the build leaves the
  program without defined behaviour there, and otherwise \<open>False\<close> where the C
  code takes \<^verbatim>\<open>goto failure\<close>.\<close>

definition mount_check_deletion ::
  "flog_config \<Rightarrow> last_deletion_t \<Rightarrow> world \<Rightarrow> (bool \<times> world) option" where
  "mount_check_deletion c ld w =
     (if ld_timestamp ld > 0 then
        (case flog_open_sector c (ld_last_block ld) 0 w of (r, (s1, f1)) \<Rightarrow>
         case flash_read_sector c 0 0 (sizeof_flog_file_header_t c) f1 of
           (bytes, f2) \<Rightarrow>
         let sector0_buffer = take 8 bytes in
         case mount_stack_overrun c (drop 8 bytes) (ld_file_id ld, ld_last_block ld) of
           None \<Rightarrow> None
         | Some (ld_file_id', ld_last_block') \<Rightarrow>
             if le32 sector0_buffer 4 = ld_file_id' then
               (case flog_open_sector c ld_last_block'
                       (of_nat (FLOG_FILE_INVALIDATION_SECTOR c)) (s1, f2) of
                  (r', (s2, f3)) \<Rightarrow>
                case flash_read_sector c 0 0 sizeof_flog_file_invalidation_sector_t f3 of
                  (sector_buffer, f4) \<Rightarrow>
                if le32 sector_buffer 0 \<noteq> FLOG_TIMESTAMP_INVALID
                then Some (False, (s2, flash_debug_error f4))
                else Some (True, (s2, f4)))
             else Some (True, (s1, f2)))
      else Some (True, w))"

text \<open>\<^verbatim>\<open>flogfs_mount\<close>. The result is \<open>None\<close> when mount gives no result: the inode
  walk did not end within \<open>fuel\<close> iterations, or the deletion check left the
  program without defined behaviour.\<close>

definition flogfs_mount :: "nat \<Rightarrow> flog_config \<Rightarrow> world \<Rightarrow> (flog_result_t \<times> world) option" where
  "flogfs_mount fuel c w =
     (case w of (s, f) \<Rightarrow>
      let s0 = fs_lock s;
          f0 = flash_lock f
      in case mount_scan c f0 of (m, f1) \<Rightarrow>
         if inode0_idx m = FLOG_BLOCK_IDX_INVALID
         then Some (FLOG_FAILURE, (fs_unlock s0, flash_unlock (flash_debug_error f1)))
         else
           case flog_inode_iterator_init c (inode0_idx m) (s0, f1) of (iter, w1) \<Rightarrow>
           (case mount_walk fuel c iter (last_allocation m) last_deletion_init w1 of
              None \<Rightarrow> None
            | Some (la, ld, w2) \<Rightarrow>
                (case mount_check_deletion c ld (mount_check_allocation c la w2) of
                   None \<Rightarrow> None
                 | Some (ok, (s4, f4)) \<Rightarrow>
                     Some (if ok then FLOG_SUCCESS else FLOG_FAILURE,
                           (fs_unlock s4, flash_unlock f4)))))"

section \<open>Opening a file for reading\<close>

text \<open>Modelled from the spec: the fields of \<^verbatim>\<open>flog_read_file_t\<close> (absent header) that
  \<^verbatim>\<open>flogfs_open_read\<close> assigns; section 4.5 of the specification lists the cursor
  as file id, block, sector, offset and bytes in the sector.\<close>

record flog_read_file_t =
  rf_id :: flog_file_id_t
  rf_block :: flog_block_idx_t
  rf_sector :: "16 word"
  rf_offset :: "16 word"
  rf_nbytes_in_sector :: "16 word"

text \<open>A C string is the bytes before the first NUL; the end of the list stands for
  the terminator of the argument. \<^verbatim>\<open>strncmp\<close> returns 0 exactly when the strings
  agree within the first \<open>n\<close> bytes.\<close>

definition strlen :: "byte list \<Rightarrow> nat" where
  "strlen str = length (takeWhile (\<lambda>b. b \<noteq> 0) str)"

definition c_string :: "nat \<Rightarrow> byte list \<Rightarrow> byte list" where
  "c_string n str = takeWhile (\<lambda>b. b \<noteq> 0) (take n str)"

definition strncmp_eq :: "byte list \<Rightarrow> byte list \<Rightarrow> nat \<Rightarrow> bool" where
  "strncmp_eq a b n = (c_string n a = c_string n b)"

text \<open>How the loop of \<^verbatim>\<open>flogfs_open_read\<close> is left.\<close>

datatype loop_exit = Exit_break | Exit_goto_failure

text \<open>The loop of \<^verbatim>\<open>flogfs_open_read\<close>; \<open>None\<close> says that it did not end within the
  iterations counted. The invalidation timestamp is read into the union that
  holds the allocation record, over its first four bytes.\<close>

fun open_read_loop ::
  "nat \<Rightarrow> flog_config \<Rightarrow> byte list \<Rightarrow> flog_inode_iterator_t \<Rightarrow> flog_read_file_t \<Rightarrow> world
     \<Rightarrow> (loop_exit \<times> flog_read_file_t \<times> world) option" where
  "open_read_loop 0 c filename iter file w = None"
| "open_read_loop (Suc n) c filename iter file w =
     (case flog_open_sector c (it_block iter) (it_sector iter) w of (r1, (s1, f1)) \<Rightarrow>
      case flash_read_sector c (unat (it_sector iter)) 0
             (sizeof_flog_inode_file_allocation_t c) f1 of (sector_buffer, f2) \<Rightarrow>
      if le32 sector_buffer 0 = FLOG_FILE_ID_INVALID then
        Some (Exit_goto_failure, file,
              (s1, if it_next_block iter \<noteq> FLOG_BLOCK_IDX_INVALID
                   then flash_debug_warn f2 else f2))
      else if \<not> strncmp_eq filename (drop 16 sector_buffer) (FLOG_MAX_FNAME_LEN c) then
        (case flog_inode_iterator_next c iter (s1, f2) of (iter', w') \<Rightarrow>
           open_read_loop n c filename iter' file w')
      else
        case flog_open_sector c (it_block iter) (it_sector iter + 1) (s1, f2) of
          (r2, (s2, f3)) \<Rightarrow>
        case flash_read_sector c (unat (it_sector iter) + 1) 0 sizeof_flog_timestamp_t f3 of
          (rd, f4) \<Rightarrow>
        let sector_buffer' = buf_load rd sector_buffer in
        if le32 sector_buffer' 0 \<noteq> FLOG_TIMESTAMP_INVALID then
          (case flog_inode_iterator_next c iter (s2, f4) of (iter', w') \<Rightarrow>
             open_read_loop n c filename iter' file w')
        else
          let file1 = file\<lparr>rf_id := le32 sector_buffer' 0, rf_block := le16 sector_buffer' 4\<rparr>
          in
          case flog_open_sector c (rf_block file1) 0 (s2, f4) of (r3, (s3, f5)) \<Rightarrow>
          case flash_read_spare c 0 f5 of (spare_buffer, f6) \<Rightarrow>
          if le16 spare_buffer 2 \<noteq> 0 then
            Some (Exit_break,
                  file1\<lparr>rf_sector := 0,
                        rf_offset := of_nat sizeof_flog_file_sector0_header_t,
                        rf_nbytes_in_sector := le16 spare_buffer 2\<rparr>,
                  (s3, f6))
          else
            case flog_open_sector c (rf_block file1) 1 (s3, f6) of (r4, (s4, f7)) \<Rightarrow>
            case flash_read_spare c 1 f7 of (spare_buffer', f8) \<Rightarrow>
              Some (Exit_break,
                    file1\<lparr>rf_sector := 1, rf_offset := 0,
                          rf_nbytes_in_sector := le16 spare_buffer' 2\<rparr>,
                    (s4, f8)))"

text \<open>After the loop, \<^verbatim>\<open>break\<close> falls through the unfinished "add item to open
  file list" into the label \<^verbatim>\<open>failure:\<close>, as \<^verbatim>\<open>goto failure\<close> does: both ways
  unlock and return \<^verbatim>\<open>FLOG_FAILURE\<close>.\<close>

definition flogfs_open_read ::
  "nat \<Rightarrow> flog_config \<Rightarrow> flog_read_file_t \<Rightarrow> byte list \<Rightarrow> world
     \<Rightarrow> (flog_result_t \<times> flog_read_file_t \<times> world) option" where
  "flogfs_open_read fuel c file filename w =
     (if strlen filename \<ge> FLOG_MAX_FNAME_LEN c then Some (FLOG_FAILURE, file, w)
      else
        case w of (s, f) \<Rightarrow>
        let s0 = fs_lock s in
        case flog_inode_iterator_init c (inode0 s0) (s0, f) of (iter, w1) \<Rightarrow>
        (case open_read_loop fuel c filename iter file w1 of
           None \<Rightarrow> None
         | Some (how, file', (s2, f2)) \<Rightarrow>
             (case how of
                Exit_break \<Rightarrow> Some (FLOG_FAILURE, file', (fs_unlock s2, flash_unlock f2))
              | Exit_goto_failure \<Rightarrow>
                  Some (FLOG_FAILURE, file', (fs_unlock s2, flash_unlock f2)))))"

section \<open>Concrete media\<close>

text \<open>A small geometry: three blocks of two pages of four sectors; page 0 of a
  block holds the reserved sectors, and an inode block's entries start at
  sector 4. In this build the overrun of mount's deletion check does not reach
  \<^verbatim>\<open>last_deletion\<close>.\<close>

definition cfg :: flog_config where
  "cfg = \<lparr>FS_NUM_BLOCKS = 3, FS_PAGES_PER_BLOCK = 2, FS_SECTORS_PER_PAGE = 4,
          FLOG_MAX_FNAME_LEN = 4,
          FLOG_INODE_TAIL_SECTOR = 2, FLOG_INODE_INVALIDATION_SECTOR = 3,
          FLOG_FILE_TAIL_SECTOR = 2, FLOG_FILE_INVALIDATION_SECTOR = 3,
          FLOG_BLOCK_TYPE_INODE = 1, FLOG_BLOCK_TYPE_FILE = 2,
          FLOG_BLOCK_TYPE_UNALLOCATED = 0xFF,
          mount_stack_overrun = (\<lambda>bytes ld. Some ld)\<rparr>"

text \<open>The bytes of a medium, given as the programmed sectors (block, sector) with
  their leading bytes; everything else is erased.\<close>

definition sectors_of :: "((nat \<times> nat) \<times> byte list) list \<Rightarrow> nat \<Rightarrow> nat \<Rightarrow> nat \<Rightarrow> byte" where
  "sectors_of al b s i =
     (case map_of al (b, s) of
        None \<Rightarrow> 0xFF
      | Some bytes \<Rightarrow> if i < length bytes then bytes ! i else 0xFF)"

definition mk_flash ::
  "((nat \<times> nat) \<times> byte list) list \<Rightarrow> ((nat \<times> nat) \<times> byte list) list \<Rightarrow> nat list \<Rightarrow> flash" where
  "mk_flash data sp bad_blocks =
     \<lparr>store = sectors_of data, spares = sectors_of sp, bad = (\<lambda>b. b \<in> set bad_blocks),
      worn = (\<lambda>b. False), init_fails = False, cur = None, locked = False, calls = []\<rparr>"

text \<open>Block 0 is inode block 0 with one entry: file 1, named "a", first block 1,
  allocated at time 1, not deleted. Block 1 is the file's block with three bytes
  of data in sector 0. Block 2 is erased.\<close>

definition inode0_sector0 :: "byte list" where
  "inode0_sector0 = enc32 0 @ enc32 0"

definition entry_a :: "byte list" where
  "entry_a = enc32 1 @ enc16 1 @ [0xFF, 0xFF] @ enc32 0 @ enc32 1 @ [0x61, 0, 0xFF, 0xFF]"

definition medium_live :: flash where
  "medium_live =
     mk_flash [((0, 0), inode0_sector0), ((0, 4), entry_a),
               ((1, 0), enc32 0 @ enc32 1 @ [0xAA, 0xBB, 0xCC])]
              [((0, 0), [1, 0, 0, 0]), ((1, 0), [2, 0, 3, 0])] []"

text \<open>The same file after \<^verbatim>\<open>rm\<close> programmed the invalidation record of its entry
  (time 2, last block 1) and before any block of the chain was touched: block 1
  still holds the file, and its invalidation sector is still erased.\<close>

definition medium_deleting :: flash where
  "medium_deleting =
     mk_flash [((0, 0), inode0_sector0), ((0, 4), entry_a), ((0, 5), enc32 2 @ enc16 1),
               ((1, 0), enc32 0 @ enc32 1 @ [0xAA, 0xBB, 0xCC])]
              [((0, 0), [1, 0, 0, 0]), ((1, 0), [2, 0, 3, 0])] []"


text \<open>Every block holds stale bytes; block 0 carries the bad-block mark.\<close>

definition medium_bad0 :: flash where
  "medium_bad0 = mk_flash [((1, 0), [7, 7, 7, 7])] [((1, 0), [2, 0, 0, 0])] [0]"

text \<open>Inode block 0 lives in block 2; blocks 0 and 1 are erased.\<close>

definition medium_inode_at_2 :: flash where
  "medium_inode_at_2 = mk_flash [((2, 0), inode0_sector0)] [((2, 0), [1, 0, 0, 0])] []"

text \<open>The medium with the live file, on which erasing block 1 fails.\<close>

definition medium_worn :: flash where
  "medium_worn = medium_live\<lparr>worn := (\<lambda>b. b = 1)\<rparr>"

text \<open>A medium that was never formatted: stale bytes in blocks 0 and 1, and
  the bad-block mark on block 1.\<close>

definition medium_stale :: flash where
  "medium_stale =
     mk_flash [((0, 0), [7, 7, 7, 7]), ((0, 4), entry_a), ((1, 0), [7, 7, 7, 7])]
              [((0, 0), [2, 0, 0, 0]), ((1, 0), [2, 0, 0, 0])] [1]"

definition file0 :: flog_read_file_t where
  "file0 = \<lparr>rf_id = 0, rf_block = 0, rf_sector = 0, rf_offset = 0, rf_nbytes_in_sector = 0\<rparr>"

text \<open>The same geometry in a build whose compiler placed \<^verbatim>\<open>last_deletion.file_id\<close>
  right behind the 8-byte union: the four bytes that the deletion check reads
  past the union land on it, and \<^verbatim>\<open>last_deletion.last_block\<close> stays as it was.\<close>

definition cfg_overrun_hits :: flog_config where
  "cfg_overrun_hits = cfg\<lparr>mount_stack_overrun := (\<lambda>bytes ld. Some (le32 bytes 0, snd ld))\<rparr>"

text \<open>The entry of a second file: file 2, named "b", first block 2, allocated at
  time 2.\<close>

definition entry_b :: "byte list" where
  "entry_b = enc32 2 @ enc16 2 @ [0xFF, 0xFF] @ enc32 0 @ enc32 2 @ [0x62, 0, 0xFF, 0xFF]"

text \<open>Inode block 0 is full (files 1 and 2 in blocks 1 and 2), and its tail
  sector names block 5 as the next inode block: a block that the medium of three
  blocks does not have, so that the driver fails to open its pages.\<close>

definition medium_dangling :: flash where
  "medium_dangling =
     mk_flash [((0, 0), inode0_sector0), ((0, 2), enc16 5), ((0, 4), entry_a), ((0, 6), entry_b),
               ((1, 0), enc32 0 @ enc32 1 @ [0xAA, 0xBB, 0xCC]),
               ((2, 0), enc32 0 @ enc32 2 @ [0xDD])]
              [((0, 0), [1, 0, 0, 0]), ((1, 0), [2, 0, 3, 0]), ((2, 0), [2, 0, 1, 0])] []"

text \<open>A medium of six blocks with an inode chain of three blocks. Block 0 is
  inode block 0 with the entries of files 1 and 2; its tail sector names block 5.
  Block 5 is the second inode block (index 1) with the entry of file 3, first
  block 3, allocated at time 3; its tail sector names block 4. Block 4 is the
  third inode block (index 2) and holds no entry yet. Blocks 1, 2 and 3 are the
  first blocks of the three files.\<close>

definition cfg6 :: flog_config where
  "cfg6 = cfg\<lparr>FS_NUM_BLOCKS := 6\<rparr>"

definition entry_c :: "byte list" where
  "entry_c = enc32 3 @ enc16 3 @ [0xFF, 0xFF] @ enc32 0 @ enc32 3 @ [0x63, 0, 0xFF, 0xFF]"

definition medium_chain :: flash where
  "medium_chain =
     mk_flash [((0, 0), inode0_sector0), ((0, 2), enc16 5), ((0, 4), entry_a), ((0, 6), entry_b),
               ((1, 0), enc32 0 @ enc32 1 @ [0xAA, 0xBB, 0xCC]),
               ((2, 0), enc32 0 @ enc32 2 @ [0xDD]),
               ((3, 0), enc32 0 @ enc32 3 @ [0xEE]),
               ((4, 0), inode0_sector0),
               ((5, 0), inode0_sector0), ((5, 2), enc16 4), ((5, 4), entry_c)]
              [((0, 0), [1, 0, 0, 0]), ((1, 0), [2, 0, 3, 0]), ((2, 0), [2, 0, 1, 0]),
               ((3, 0), [2, 0, 1, 0]), ((4, 0), [1, 0, 2, 0]), ((5, 0), [1, 0, 1, 0])] []"

section \<open>Notions used by the properties\<close>

text \<open>The page cache agrees with the driver: when the cache says that a page is
  open, that page is the one the driver opened last (and the driver has no page
  open when that page lies outside the medium).\<close>

definition cache_coherent :: "flog_config \<Rightarrow> world \<Rightarrow> bool" where
  "cache_coherent c w =
     (case w of (s, f) \<Rightarrow>
        page_open s = 0 \<or>
        cur f = (if unat (current_open_block s) < FS_NUM_BLOCKS c
                    \<and> unat (current_open_page s) < FS_PAGES_PER_BLOCK c
                 then Some (unat (current_open_block s), unat (current_open_page s))
                 else None))"

text \<open>The \<^verbatim>\<open>next_block\<close> field stored in the tail sector of inode block \<open>b\<close>, as the
  medium holds it; a block outside the medium reads as erased.\<close>

definition inode_tail_next_block :: "flog_config \<Rightarrow> flash \<Rightarrow> flog_block_idx_t \<Rightarrow> flog_block_idx_t" where
  "inode_tail_next_block c f b =
     (if unat b < FS_NUM_BLOCKS c \<and> 0 < FS_PAGES_PER_BLOCK c
      then le16 [store f (unat b) (sector_index c 0 (FLOG_INODE_TAIL_SECTOR c)) 0,
                 store f (unat b) (sector_index c 0 (FLOG_INODE_TAIL_SECTOR c)) 1] 0
      else 0xFFFF)"

text \<open>What \<^verbatim>\<open>flogfs_format\<close> leaves on the medium: block 0 is good and carries the
  spare of inode block 0 (type INODE, index 0), it is erased after sector 0, and
  every other good block of the medium is erased.\<close>

definition formatted :: "flog_config \<Rightarrow> flash \<Rightarrow> bool" where
  "formatted c F =
     (\<not> bad F 0
      \<and> spares F 0 0 0 = FLOG_BLOCK_TYPE_INODE c \<and> spares F 0 0 2 = 0 \<and> spares F 0 0 3 = 0
      \<and> (\<forall>sec i. store F 0 (Suc sec) i = 0xFF)
      \<and> (\<forall>b sec i. Suc b < FS_NUM_BLOCKS c \<and> \<not> bad F (Suc b) \<longrightarrow>
            store F (Suc b) sec i = 0xFF \<and> spares F (Suc b) sec i = 0xFF))"

text \<open>The driver calls that change the medium: programming a sector or a spare,
  committing a page, erasing a block. \<open>reads_only f f'\<close> says that between \<open>f\<close>
  and \<open>f'\<close> no such call was made and that the bytes of the medium are the same.\<close>

fun is_modifying_call :: "flash_call \<Rightarrow> bool" where
  "is_modifying_call (Call_write_sector src sec off n) = True"
| "is_modifying_call (Call_write_spare src sec) = True"
| "is_modifying_call Call_commit = True"
| "is_modifying_call (Call_erase_block b) = True"
| "is_modifying_call x = False"

definition reads_only :: "flash \<Rightarrow> flash \<Rightarrow> bool" where
  "reads_only f f' =
     (store f' = store f \<and> spares f' = spares f
      \<and> filter is_modifying_call (calls f') = filter is_modifying_call (calls f))"

text \<open>Two filesystem states agree on every field other than \<open>max_file_id\<close>, \<open>t\<close>,
  the page cache and the lock (\<open>fs_frame\<close>), and on every field other than the
  page cache and the lock (\<open>cache_frame\<close>).\<close>

definition fs_frame :: "flogfs_t \<Rightarrow> flogfs_t \<Rightarrow> bool" where
  "fs_frame s s' =
     (read_head s' = read_head s \<and> write_head s' = write_head s
      \<and> max_block_sequence s' = max_block_sequence s
      \<and> first_age_table_block s' = first_age_table_block s
      \<and> first_file_table_block s' = first_file_table_block s
      \<and> state s' = state s \<and> inode0 s' = inode0 s \<and> num_files s' = num_files s
      \<and> num_free_blocks s' = num_free_blocks s)"

definition cache_frame :: "flogfs_t \<Rightarrow> flogfs_t \<Rightarrow> bool" where
  "cache_frame s s' = (fs_frame s s' \<and> max_file_id s' = max_file_id s \<and> t s' = t s)"

text \<open>The inode chain as the medium holds it, read from the bytes of the medium
  alone, with no page cache and no driver state.

  Block \<open>b\<close> is inode block 0 when it is good, its spare carries the type of an
  inode block and the inode index 0, and the timestamp of its invalidation sector
  is erased.\<close>

definition is_inode0 :: "flog_config \<Rightarrow> flash \<Rightarrow> nat \<Rightarrow> bool" where
  "is_inode0 c f b =
     (\<not> bad f b
      \<and> spares f b 0 0 = FLOG_BLOCK_TYPE_INODE c
      \<and> le16 [spares f b 0 2, spares f b 0 3] 0 = 0
      \<and> le32 (map (store f b (sector_index c 0 (FLOG_INODE_INVALIDATION_SECTOR c))) [0..<4]) 0
          = 0xFFFFFFFF)"

text \<open>The file id of the entry whose allocation record is sector \<open>sec\<close> of block
  \<open>b\<close>; a sector outside the medium reads as erased.\<close>

definition inode_entry_file_id ::
  "flog_config \<Rightarrow> flash \<Rightarrow> flog_block_idx_t \<Rightarrow> nat \<Rightarrow> flog_file_id_t" where
  "inode_entry_file_id c f b sec =
     (if unat b < FS_NUM_BLOCKS c \<and> sec < FS_PAGES_PER_BLOCK c * FS_SECTORS_PER_PAGE c
      then le32 (map (store f (unat b) sec) [0..<4]) 0
      else FLOG_FILE_ID_INVALID)"

text \<open>The file ids of the entries of the chain, in chain order, from the entry at
  sector \<open>sec\<close> of inode block \<open>b\<close> on. An entry takes two sectors; the first
  entry of an inode block is at sector \<open>FS_SECTORS_PER_PAGE\<close>; after the last
  entry of a block the chain goes on in the block that the tail sector names; it
  ends at the first entry whose file id is erased. The result is \<open>None\<close> when the
  chain does not end within \<open>n\<close> entries (a chain that runs in a circle never
  ends).\<close>

fun inode_chain_file_ids ::
  "nat \<Rightarrow> flog_config \<Rightarrow> flash \<Rightarrow> flog_block_idx_t \<Rightarrow> nat \<Rightarrow> flog_file_id_t list option" where
  "inode_chain_file_ids 0 c f b sec = None"
| "inode_chain_file_ids (Suc n) c f b sec =
     (if inode_entry_file_id c f b sec = FLOG_FILE_ID_INVALID then Some []
      else map_option ((#) (inode_entry_file_id c f b sec))
             (if sec + 2 < FS_PAGES_PER_BLOCK c * FS_SECTORS_PER_PAGE c
              then inode_chain_file_ids n c f b (sec + 2)
              else inode_chain_file_ids n c f (inode_tail_next_block c f b)
                     (FS_SECTORS_PER_PAGE c)))"

section \<open>Properties of the page cache and the iterator\<close>

lemma flog_open_page_twice:
  assumes "flog_open_page c b p w = (r, w')"
  shows "flog_open_page c b p w' = (r, w')"
proof (cases w)
  case (Pair s f)
  show ?thesis
  proof (cases "page_open s \<noteq> 0 \<and> current_open_block s = b \<and> current_open_page s = p")
    case True
    with assms Pair have "r = page_open_result s" "w' = (s, f)"
      by (simp_all add: flog_open_page_def)
    with True show ?thesis by (simp add: flog_open_page_def)
  next
    case False
    obtain r1 f1 where o: "flash_open_page c (unat b) (unat p) f = (r1, f1)"
      by (cases "flash_open_page c (unat b) (unat p) f")
    with assms Pair False have "r = r1"
      "w' = (s\<lparr>page_open_result := r1, page_open := 1,
                 current_open_block := b, current_open_page := p\<rparr>, f1)"
      by (auto simp: flog_open_page_def)
    then show ?thesis by (simp add: flog_open_page_def)
  qed
qed

lemma flog_open_page_hit:
  "flog_open_page c b p (s\<lparr>page_open := 1, current_open_block := b, current_open_page := p\<rparr>, f)
     = (page_open_result s, (s\<lparr>page_open := 1, current_open_block := b, current_open_page := p\<rparr>, f))"
  by (simp add: flog_open_page_def)

lemma flog_open_page_cur:
  assumes "cache_coherent c w"
  shows "cur (snd (snd (flog_open_page c b p w))) =
           (if unat b < FS_NUM_BLOCKS c \<and> unat p < FS_PAGES_PER_BLOCK c
            then Some (unat b, unat p) else None)"
    and "store (snd (snd (flog_open_page c b p w))) = store (snd w)"
    and "cache_coherent c (snd (flog_open_page c b p w))"
  using assms
  by (cases w; auto simp: flog_open_page_def cache_coherent_def flash_open_page_def log_call_def)+

text \<open>
  Claim C9. Opening a sector is opening the page that holds it: for every block
  \<open>b\<close> and sector \<open>sec\<close>, \<^verbatim>\<open>flog_open_sector(b, sec)\<close> is
  \<^verbatim>\<open>flog_open_page(b, sec / FS_SECTORS_PER_PAGE)\<close>. Opening a page a second time
  while it is open is a no-op: the second call returns what the first one
  returned and leaves the state, the flash and the log of driver calls as the
  first call left them; and in any state whose cache holds the page as open, the
  call returns the stored result with no driver call.
\<close>

theorem C9_page_cache:
  "flog_open_sector c b sec w = flog_open_page c b (of_nat (unat sec div FS_SECTORS_PER_PAGE c)) w
   \<and> flog_open_page c b p (snd (flog_open_page c b p w)) = flog_open_page c b p w
   \<and> calls (snd (snd (flog_open_page c b p (snd (flog_open_page c b p w)))))
       = calls (snd (snd (flog_open_page c b p w)))
   \<and> flog_open_page c b p (s\<lparr>page_open := 1, current_open_block := b, current_open_page := p\<rparr>, f)
       = (page_open_result s, (s\<lparr>page_open := 1, current_open_block := b, current_open_page := p\<rparr>, f))"
proof -
  have two: "flog_open_page c b p (snd (flog_open_page c b p w)) = flog_open_page c b p w"
    using flog_open_page_twice[of c b p w] by (metis prod.collapse)
  show ?thesis
    by (simp add: two flog_open_page_hit) (simp add: flog_open_sector_def)
qed

text \<open>
  Claim C8. One step of the inode iterator adds 1 to \<open>inode_idx\<close> and 2 to
  \<open>sector\<close> (16-bit arithmetic). While the new sector is below
  \<open>FS_PAGES_PER_BLOCK * FS_SECTORS_PER_PAGE\<close> nothing else changes. Once it
  passes the last entry pair of the block, the iterator moves to the block named
  by \<open>next_block\<close>, reloads \<open>next_block\<close> from the tail sector of that block and
  resets \<open>sector\<close> to \<open>FS_SECTORS_PER_PAGE\<close>, the first entry sector. The page
  cache is assumed to agree with the driver, as it does after any
  \<^verbatim>\<open>flog_open_page\<close> that reached the driver.
\<close>

theorem C8_iterator_next:
  assumes "cache_coherent c w"
  shows "it_inode_idx (fst (flog_inode_iterator_next c iter w)) = it_inode_idx iter + 1 \<and>
     (if unat (it_sector iter + 2) < FS_PAGES_PER_BLOCK c * FS_SECTORS_PER_PAGE c
      then it_sector (fst (flog_inode_iterator_next c iter w)) = it_sector iter + 2
         \<and> it_block (fst (flog_inode_iterator_next c iter w)) = it_block iter
         \<and> it_next_block (fst (flog_inode_iterator_next c iter w)) = it_next_block iter
         \<and> snd (flog_inode_iterator_next c iter w) = w
      else it_block (fst (flog_inode_iterator_next c iter w)) = it_next_block iter
         \<and> it_next_block (fst (flog_inode_iterator_next c iter w))
             = inode_tail_next_block c (snd w) (it_next_block iter)
         \<and> it_sector (fst (flog_inode_iterator_next c iter w)) = of_nat (FS_SECTORS_PER_PAGE c))"
proof (cases "unat (it_sector iter + 2) < FS_PAGES_PER_BLOCK c * FS_SECTORS_PER_PAGE c")
  case True
  then show ?thesis by (simp add: flog_inode_iterator_next_def Let_def)
next
  case False
  obtain r s f where o: "flog_open_page c (it_next_block iter) 0 w = (r, (s, f))"
    by (metis prod.exhaust)
  from flog_open_page_cur(1,2)[OF assms, of "it_next_block iter" 0] o
  have cf: "cur f = (if unat (it_next_block iter) < FS_NUM_BLOCKS c \<and> 0 < FS_PAGES_PER_BLOCK c
            then Some (unat (it_next_block iter), 0) else None)" and st: "store f = store (snd w)"
    by simp_all
  have rd: "le16 (fst (flash_read_sector c (FLOG_INODE_TAIL_SECTOR c) 0 sizeof_flog_block_idx_t f)) 0
      = inode_tail_next_block c (snd w) (it_next_block iter)"
    by (simp add: flash_read_sector_def cf st inode_tail_next_block_def sizeof_flog_block_idx_t_def
         le16_def upt_rec_numeral)
  obtain buf f' where r2:
    "flash_read_sector c (FLOG_INODE_TAIL_SECTOR c) 0 sizeof_flog_block_idx_t f = (buf, f')"
    by (metis prod.exhaust)
  with rd have "le16 buf 0 = inode_tail_next_block c (snd w) (it_next_block iter)" by simp
  with False o r2 show ?thesis
    by (simp add: flog_inode_iterator_next_def Let_def)
qed

text \<open>Witness for C8: the iterator stands on the last entry pair (sector 6 of 8) of
  inode block 0 with \<open>next_block = 1\<close>; the step moves it to block 1, whose tail
  sector is erased.\<close>

theorem C8_iterator_next_witness:
  "cache_coherent cfg (flogfs_static, medium_live) \<and>
   it_inode_idx (fst (flog_inode_iterator_next cfg
       \<lparr>it_block = 0, it_next_block = 1, it_inode_idx = 1, it_sector = 6\<rparr>
       (flogfs_static, medium_live))) = 2 \<and>
   it_block (fst (flog_inode_iterator_next cfg
       \<lparr>it_block = 0, it_next_block = 1, it_inode_idx = 1, it_sector = 6\<rparr>
       (flogfs_static, medium_live))) = 1 \<and>
   it_next_block (fst (flog_inode_iterator_next cfg
       \<lparr>it_block = 0, it_next_block = 1, it_inode_idx = 1, it_sector = 6\<rparr>
       (flogfs_static, medium_live))) = 0xFFFF \<and>
   it_sector (fst (flog_inode_iterator_next cfg
       \<lparr>it_block = 0, it_next_block = 1, it_inode_idx = 1, it_sector = 6\<rparr>
       (flogfs_static, medium_live))) = 4"
proof -
  have h: "cache_coherent cfg (flogfs_static, medium_live)" by code_simp
  have e: "\<not> unat ((6 :: 16 word) + 2) < FS_PAGES_PER_BLOCK cfg * FS_SECTORS_PER_PAGE cfg"
    by code_simp
  have n: "inode_tail_next_block cfg medium_live 1 = 0xFFFF" by code_simp
  have p: "(of_nat (FS_SECTORS_PER_PAGE cfg) :: 16 word) = 4" by code_simp
  from C8_iterator_next[OF h, of "\<lparr>it_block = 0, it_next_block = 1, it_inode_idx = 1, it_sector = 6\<rparr>"]
    h e n p show ?thesis by simp
qed

text \<open>
  Claim C10. A filename of \<open>FLOG_MAX_FNAME_LEN\<close> bytes or more makes
  \<^verbatim>\<open>flogfs_open_read\<close> return \<open>FLOG_FAILURE\<close> at once: the filesystem state (its
  lock included), the flash (its log of driver calls included) and the file
  handle are returned as they were given.
\<close>

theorem C10_open_read_long_name:
  "FLOG_MAX_FNAME_LEN c \<le> strlen filename \<Longrightarrow>
     flogfs_open_read fuel c file filename w = Some (FLOG_FAILURE, file, w)"
  by (simp add: flogfs_open_read_def)

theorem C10_open_read_long_name_witness:
  "FLOG_MAX_FNAME_LEN cfg \<le> strlen [0x61, 0x62, 0x63, 0x64] \<and>
   flogfs_open_read 3 cfg file0 [0x61, 0x62, 0x63, 0x64] (flogfs_static, medium_live)
     = Some (FLOG_FAILURE, file0, (flogfs_static, medium_live))"
proof -
  have h: "FLOG_MAX_FNAME_LEN cfg \<le> strlen [0x61, 0x62, 0x63, 0x64]" by code_simp
  from h C10_open_read_long_name[OF h] show ?thesis by blast
qed


section \<open>Mount: recovery of the last allocation\<close>

lemma byte_ff_and: "(0xFF :: byte) AND x = x"
proof -
  have e: "(0xFF :: byte) = - 1" by simp
  show ?thesis unfolding e by simp
qed




lemma calls_flash_read_sector:
  "calls (snd (flash_read_sector c sec off n f)) = calls f @ [Call_read_sector sec off n]"
  by (simp add: flash_read_sector_def log_call_def)

lemma flog_open_page_post:
  assumes "flog_open_page c b p w = (r, (s, f))"
  shows "page_open s \<noteq> 0 \<and> current_open_block s = b \<and> current_open_page s = p
         \<and> page_open_result s = r"
  using assms
  by (cases w) (auto simp: flog_open_page_def split: if_splits prod.splits)




lemma flog_open_page_flash_frame:
  "store (snd (snd (flog_open_page c b p w))) = store (snd w)
   \<and> spares (snd (snd (flog_open_page c b p w))) = spares (snd w)
   \<and> bad (snd (snd (flog_open_page c b p w))) = bad (snd w)
   \<and> worn (snd (snd (flog_open_page c b p w))) = worn (snd w)
   \<and> locked (snd (snd (flog_open_page c b p w))) = locked (snd w)"
  by (cases w) (simp add: flog_open_page_def flash_open_page_def log_call_def split: prod.splits)



section \<open>Where the code departs from the specification\<close>

lemma open_read_never_succeeds:
  "flogfs_open_read fuel c file filename w = Some (r, x) \<Longrightarrow> r = FLOG_FAILURE"
  by (auto simp: flogfs_open_read_def Let_def split: if_splits prod.splits option.splits loop_exit.splits)

text \<open>
  Claim C1 (the code departs from it). After a successful mount of the medium
  with the live file "a", whose first block has 3 bytes in sector 0,
  \<^verbatim>\<open>flogfs_open_read\<close> leaves the handle at block 1, sector 0, offset 8 (the size
  of the file header) with 3 bytes in the sector, as the claim says, and then
  returns \<open>FLOG_FAILURE\<close>: after the loop, \<^verbatim>\<open>break\<close> runs into the label
  \<^verbatim>\<open>failure:\<close>.
\<close>

theorem C1_open_read_positions_then_fails:
  "(case flogfs_mount 3 cfg (flogfs_static, medium_live) of
      None \<Rightarrow> False
    | Some (r, w) \<Rightarrow>
        r = FLOG_SUCCESS \<and>
        map_option (\<lambda>(r', file', w'). (r', rf_block file', rf_sector file', rf_offset file',
                                      rf_nbytes_in_sector file'))
          (flogfs_open_read 3 cfg file0 [0x61] w)
        = Some (FLOG_FAILURE, 1, 0, 8, 3))"
  by code_simp

text \<open>
  Claim C2 (the code departs from it). Mount succeeds on the medium with one
  file and one erased block, and on the medium whose inode block 0 is block 2;
  it counts the free blocks and finds inode block 0 in its locals, and returns
  with \<open>num_free_blocks\<close>, \<open>num_files\<close> and \<open>inode0\<close> of the filesystem state as
  they were (0), while \<open>max_file_id\<close> is 1.
\<close>

theorem C2_mount_publishes_nothing:
  "(case flogfs_mount 3 cfg (flogfs_static, medium_live) of
      None \<Rightarrow> False
    | Some (r, (s', f')) \<Rightarrow>
        r = FLOG_SUCCESS \<and> max_file_id s' = 1 \<and> num_files s' = 0 \<and> num_free_blocks s' = 0)
   \<and> ms_num_free_blocks (fst (mount_scan cfg (flash_lock medium_live))) = 1
   \<and> (case flogfs_mount 3 cfg (flogfs_static, medium_inode_at_2) of
      None \<Rightarrow> False
    | Some (r, (s', f')) \<Rightarrow> r = FLOG_SUCCESS \<and> inode0 s' = 0 \<and> num_free_blocks s' = 0)
   \<and> inode0_idx (fst (mount_scan cfg (flash_lock medium_inode_at_2))) = 2
   \<and> ms_num_free_blocks (fst (mount_scan cfg (flash_lock medium_inode_at_2))) = 2"
  by code_simp

text \<open>
  Claim C3, counterexample. Blocks 1 and 2 of the medium are good, block 0 is
  bad. Format succeeds (it writes inode block 0 into the bad block 0), and the
  mount that follows skips block 0 as bad, finds no inode block 0 and returns
  \<open>FLOG_FAILURE\<close>.
\<close>

theorem C3_counterexample:
  "\<not> bad medium_bad0 1 \<and> \<not> bad medium_bad0 2 \<and> bad medium_bad0 0
   \<and> fst (flogfs_format cfg (flogfs_static, medium_bad0)) = FLOG_SUCCESS
   \<and> map_option fst (flogfs_mount 3 cfg (snd (flogfs_format cfg (flogfs_static, medium_bad0))))
       = Some FLOG_FAILURE"
  by code_simp

section \<open>Format, then mount\<close>

lemma read_sector_nth:
  "i < n \<Longrightarrow> fst (flash_read_sector c sec off n f) ! i =
     (case cur f of None \<Rightarrow> 0xFF | Some (b, p) \<Rightarrow> store f b (sector_index c p sec) (off + i))"
  by (simp add: flash_read_sector_def split: option.splits)

lemma read_spare_nth:
  "i < 4 \<Longrightarrow> fst (flash_read_spare c sec f) ! i =
     (case cur f of None \<Rightarrow> 0xFF | Some (b, p) \<Rightarrow> spares f b (sector_index c p sec) i)"
  by (simp add: flash_read_spare_def sizeof_spare_def split: option.splits)

lemma read_sector_snd: "snd (flash_read_sector c sec off n f) = log_call (Call_read_sector sec off n) f"
  by (simp add: flash_read_sector_def)

lemma read_spare_snd: "snd (flash_read_spare c sec f) = log_call (Call_read_spare sec) f"
  by (simp add: flash_read_spare_def)

lemma le32_erased:
  "buf ! i = 0xFF \<Longrightarrow> buf ! (i + 1) = 0xFF \<Longrightarrow> buf ! (i + 2) = 0xFF \<Longrightarrow> buf ! (i + 3) = 0xFF
     \<Longrightarrow> le32 buf i = 0xFFFFFFFF"
  by (simp add: le32_def)

lemma le16_erased:
  "buf ! i = 0xFF \<Longrightarrow> buf ! (i + 1) = 0xFF \<Longrightarrow> le16 buf i = 0xFFFF"
  by (simp add: le16_def)

lemma le16_zero:
  "buf ! i = 0 \<Longrightarrow> buf ! (i + 1) = 0 \<Longrightarrow> le16 buf i = 0"
  by (simp add: le16_def)

lemma mount_scan_block_flash:
  "store (snd (mount_scan_block c i (m, f))) = store f
   \<and> spares (snd (mount_scan_block c i (m, f))) = spares f
   \<and> bad (snd (mount_scan_block c i (m, f))) = bad f
   \<and> worn (snd (mount_scan_block c i (m, f))) = worn f
   \<and> locked (snd (mount_scan_block c i (m, f))) = locked f"
  by (simp add: mount_scan_block_def flash_defs Let_def split: prod.splits option.splits)

lemma mount_scan_block_erased:
  assumes "bad f i \<or> (\<forall>sec j. store f i sec j = 0xFF \<and> spares f i sec j = 0xFF)"
  shows "inode0_idx (fst (mount_scan_block c i (m, f))) = inode0_idx m
       \<and> last_allocation (fst (mount_scan_block c i (m, f))) = last_allocation m"
proof (cases "i < FS_NUM_BLOCKS c \<and> 0 < FS_PAGES_PER_BLOCK c \<and> \<not> bad f i")
  case False
  then show ?thesis
    by (auto simp: mount_scan_block_def flash_open_page_def flash_block_is_bad_def log_call_def)
next
  case True
  with assms have er: "\<And>sec j. store f i sec j = 0xFF" "\<And>sec j. spares f i sec j = 0xFF"
    by auto
  obtain f1 where o: "flash_open_page c i 0 f = (FLOG_SUCCESS, f1)" and c1: "cur f1 = Some (i, 0)"
    and st1: "store f1 = store f" "spares f1 = spares f" "bad f1 = bad f"
    using True by (simp add: flash_open_page_def log_call_def)
  obtain f2 where b: "flash_block_is_bad f1 = (False, f2)" and c2: "cur f2 = Some (i, 0)"
    and st2: "store f2 = store f" "spares f2 = spares f"
    using True c1 st1 by (simp add: flash_block_is_bad_def log_call_def)
  obtain sp f3 where rs: "flash_read_spare c 0 f2 = (sp, f3)" by (metis prod.exhaust)
  from read_spare_nth[of _ c 0 f2] rs c2 st2 er
  have sp: "sp ! 0 = 0xFF" "sp ! 1 = 0xFF" "sp ! 2 = 0xFF" "sp ! 3 = 0xFF"
    by (simp_all)
  from read_spare_snd[of c 0 f2] rs have f3: "f3 = log_call (Call_read_spare 0) f2" by simp
  with c2 st2 have c3: "cur f3 = Some (i, 0)" "store f3 = store f"
    by (simp_all add: log_call_def)
  have idx: "le16 sp 2 = 0xFFFF" using sp by (simp add: le16_def)
  have ts: "le32 (fst (flash_read_sector c sec 0 n f3)) 8 = 0xFFFFFFFF" if "12 \<le> n" for sec n
    using that by (intro le32_erased) (simp_all add: read_sector_nth c3 er)
  show ?thesis
    using o b rs idx ts[of sizeof_flog_file_tail_sector_header_t "FLOG_FILE_TAIL_SECTOR c"]
    by (simp add: mount_scan_block_def Let_def sizeof_defs case_prod_beta)
qed

lemma mount_scan_block_inode0:
  assumes "formatted c f" and geo: "0 < FS_NUM_BLOCKS c" "0 < FS_PAGES_PER_BLOCK c"
    "FLOG_INODE_INVALIDATION_SECTOR c mod FS_SECTORS_PER_PAGE c \<noteq> 0"
  shows "inode0_idx (fst (mount_scan_block c 0 (m, f))) = 0
       \<and> last_allocation (fst (mount_scan_block c 0 (m, f))) = last_allocation m"
proof -
  from assms(1) have nb: "\<not> bad f 0" and ty: "spares f 0 0 0 = FLOG_BLOCK_TYPE_INODE c"
    and ix: "spares f 0 0 2 = 0" "spares f 0 0 3 = 0" and er: "\<And>sec i. store f 0 (Suc sec) i = 0xFF"
    by (simp_all add: formatted_def)
  obtain k where k: "FLOG_INODE_INVALIDATION_SECTOR c mod FS_SECTORS_PER_PAGE c = Suc k"
    using geo(3) by (cases "FLOG_INODE_INVALIDATION_SECTOR c mod FS_SECTORS_PER_PAGE c") auto
  obtain f1 where o: "flash_open_page c 0 0 f = (FLOG_SUCCESS, f1)" and c1: "cur f1 = Some (0, 0)"
    and st1: "store f1 = store f" "spares f1 = spares f" "bad f1 = bad f"
    using geo by (simp add: flash_open_page_def log_call_def)
  obtain f2 where b: "flash_block_is_bad f1 = (False, f2)" and c2: "cur f2 = Some (0, 0)"
    and st2: "store f2 = store f" "spares f2 = spares f"
    using nb c1 st1 by (simp add: flash_block_is_bad_def log_call_def)
  obtain sp f3 where rs: "flash_read_spare c 0 f2 = (sp, f3)" by (metis prod.exhaust)
  have si0: "sector_index c 0 0 = 0" by (simp add: sector_index_def)
  from read_spare_nth[of _ c 0 f2] rs c2 st2 ty ix si0
  have sp: "sp ! 0 = FLOG_BLOCK_TYPE_INODE c" "sp ! 2 = 0" "sp ! 3 = 0"
    by (simp_all)
  from read_spare_snd[of c 0 f2] rs have f3: "f3 = log_call (Call_read_spare 0) f2" by simp
  with c2 st2 have c3: "cur f3 = Some (0, 0)" "store f3 = store f"
    by (simp_all add: log_call_def)
  have idx: "le16 sp 2 = 0" using sp by (simp add: le16_def)
  have ts: "le32 (fst (flash_read_sector c (FLOG_INODE_INVALIDATION_SECTOR c) 0
                    sizeof_flog_timestamp_t f3)) 0 = 0xFFFFFFFF"
    by (intro le32_erased)
       (simp_all add: read_sector_nth c3 er sizeof_defs sector_index_def k)
  show ?thesis
    using o b rs idx ts sp
    by (simp add: mount_scan_block_def Let_def case_prod_beta)
qed

lemma formatted_cong:
  "store f' = store f \<Longrightarrow> spares f' = spares f \<Longrightarrow> bad f' = bad f \<Longrightarrow>
     formatted c f' = formatted c f"
  by (simp add: formatted_def)

lemma mount_scan_prefix:
  assumes fm: "formatted c f" and geo: "0 < FS_NUM_BLOCKS c" "0 < FS_PAGES_PER_BLOCK c"
    "FLOG_INODE_INVALIDATION_SECTOR c mod FS_SECTORS_PER_PAGE c \<noteq> 0"
  shows "k \<le> FS_NUM_BLOCKS c \<Longrightarrow>
     store (snd (fold (mount_scan_block c) [0..<k] (m0, f))) = store f
   \<and> spares (snd (fold (mount_scan_block c) [0..<k] (m0, f))) = spares f
   \<and> bad (snd (fold (mount_scan_block c) [0..<k] (m0, f))) = bad f
   \<and> last_allocation (fst (fold (mount_scan_block c) [0..<k] (m0, f))) = last_allocation m0
   \<and> inode0_idx (fst (fold (mount_scan_block c) [0..<k] (m0, f)))
        = (if k = 0 then inode0_idx m0 else 0)"
proof (induction k)
  case 0
  then show ?case by simp
next
  case (Suc k)
  obtain m f1 where st: "fold (mount_scan_block c) [0..<k] (m0, f) = (m, f1)"
    by (metis prod.exhaust)
  from Suc st have ih: "store f1 = store f" "spares f1 = spares f" "bad f1 = bad f"
    "last_allocation m = last_allocation m0"
    "inode0_idx m = (if k = 0 then inode0_idx m0 else 0)"
    by simp_all
  from fm ih formatted_cong[of f1 f c] have fm1: "formatted c f1" by simp
  have step: "fold (mount_scan_block c) [0..<Suc k] (m0, f) = mount_scan_block c k (m, f1)"
    using st by simp
  note fl = mount_scan_block_flash[of c k m f1]
  show ?case
  proof (cases k)
    case 0
    with mount_scan_block_inode0[OF fm1 geo, of m] fl ih show ?thesis
      unfolding step by simp
  next
    case (Suc b)
    with Suc.prems fm1 have "bad f1 k \<or> (\<forall>sec j. store f1 k sec j = 0xFF \<and> spares f1 k sec j = 0xFF)"
      by (auto simp: formatted_def)
    from mount_scan_block_erased[OF this, of c m] fl ih Suc show ?thesis
      unfolding step by simp
  qed
qed

lemma mount_scan_formatted:
  assumes fm: "formatted c f" and geo: "0 < FS_NUM_BLOCKS c" "0 < FS_PAGES_PER_BLOCK c"
    "FLOG_INODE_INVALIDATION_SECTOR c mod FS_SECTORS_PER_PAGE c \<noteq> 0"
  shows "store (snd (mount_scan c f)) = store f
   \<and> la_timestamp (last_allocation (fst (mount_scan c f))) = 0
   \<and> inode0_idx (fst (mount_scan c f)) = 0"
  using mount_scan_prefix[OF fm geo, of "FS_NUM_BLOCKS c" mount_locals_init] geo(1)
  by (simp add: mount_scan_def mount_locals_init_def)

lemma format_erase_ok:
  assumes "0 < FS_PAGES_PER_BLOCK c"
  shows "(\<forall>i \<in> set bs. i < FS_NUM_BLOCKS c \<and> (bad f i \<or> \<not> worn f i)) \<Longrightarrow>
     fst (format_erase c bs f) = FLOG_SUCCESS
     \<and> bad (snd (format_erase c bs f)) = bad f
     \<and> worn (snd (format_erase c bs f)) = worn f
     \<and> (\<forall>b. store (snd (format_erase c bs f)) b
            = (if b \<in> set bs \<and> \<not> bad f b then (\<lambda>sec i. 0xFF) else store f b))
     \<and> (\<forall>b. spares (snd (format_erase c bs f)) b
            = (if b \<in> set bs \<and> \<not> bad f b then (\<lambda>sec i. 0xFF) else spares f b))"
proof (induction bs arbitrary: f)
  case Nil
  then show ?case by simp
next
  case (Cons i bs)
  from Cons.prems have i: "i < FS_NUM_BLOCKS c" "bad f i \<or> \<not> worn f i" by simp_all
  show ?case
  proof (cases "bad f i")
    case True
    let ?f2 = "log_call Call_block_is_bad (log_call (Call_open_page i 0) (f\<lparr>cur := Some (i, 0)\<rparr>))"
    have e: "format_erase c (i # bs) f = format_erase c bs ?f2"
      using i assms True by (simp add: flash_open_page_def flash_block_is_bad_def log_call_def)
    have p: "\<forall>j \<in> set bs. j < FS_NUM_BLOCKS c \<and> (bad ?f2 j \<or> \<not> worn ?f2 j)"
      using Cons.prems by (simp add: log_call_def)
    from Cons.IH[OF p] True show ?thesis unfolding e by (auto simp: log_call_def)
  next
    case False
    let ?f2 = "log_call Call_block_is_bad (log_call (Call_open_page i 0) (f\<lparr>cur := Some (i, 0)\<rparr>))"
    let ?f3 = "log_call (Call_erase_block i)
              (?f2\<lparr>store := (store ?f2)(i := (\<lambda>s j. 0xFF)),
                    spares := (spares ?f2)(i := (\<lambda>s j. 0xFF))\<rparr>)"
    have e: "format_erase c (i # bs) f = format_erase c bs ?f3"
      using i assms False
      by (simp add: flash_open_page_def flash_block_is_bad_def flash_erase_block_def log_call_def)
    have p: "\<forall>j \<in> set bs. j < FS_NUM_BLOCKS c \<and> (bad ?f3 j \<or> \<not> worn ?f3 j)"
      using Cons.prems by (simp add: log_call_def)
    from Cons.IH[OF p] False show ?thesis unfolding e by (auto simp: log_call_def)
  qed
qed

lemma flogfs_format_formatted:
  assumes geo: "0 < FS_NUM_BLOCKS c" "0 < FS_PAGES_PER_BLOCK c"
    and b0: "\<not> bad f 0"
    and wn: "\<forall>i < FS_NUM_BLOCKS c. bad f i \<or> \<not> worn f i"
  shows "fst (flogfs_format c (s, f)) = FLOG_SUCCESS
       \<and> formatted c (snd (snd (flogfs_format c (s, f))))"
proof -
  have p: "\<forall>i \<in> set [0..<FS_NUM_BLOCKS c]. i < FS_NUM_BLOCKS c \<and> (bad f i \<or> \<not> worn f i)"
    using wn by simp
  obtain e f1 where fe: "format_erase c [0..<FS_NUM_BLOCKS c] f = (e, f1)" by (metis prod.exhaust)
  from format_erase_ok[OF geo(2) p] fe
  have e: "e = FLOG_SUCCESS" and bd: "bad f1 = bad f"
    and st: "\<And>b. store f1 b = (if b < FS_NUM_BLOCKS c \<and> \<not> bad f b then (\<lambda>sec i. 0xFF) else store f b)"
    and sp: "\<And>b. spares f1 b = (if b < FS_NUM_BLOCKS c \<and> \<not> bad f b then (\<lambda>sec i. 0xFF) else spares f b)"
    by simp_all
  have si0: "sector_index c 0 0 = 0" by (simp add: sector_index_def)
  have z: "enc16 0 = [0, 0]" "enc32 0 = [0, 0, 0, 0]" by (simp_all add: enc16_def enc32_def)
  show ?thesis
    using fe e bd st sp geo b0
    by (simp add: flogfs_format_def Let_def flash_defs sizeof_defs si0 z buf_store_def
          formatted_def program_def byte_ff_and)
qed

lemma flogfs_mount_formatted:
  assumes fm: "formatted c f"
    and geo: "0 < FS_NUM_BLOCKS c" "0 < FS_PAGES_PER_BLOCK c"
      "FLOG_INODE_INVALIDATION_SECTOR c mod FS_SECTORS_PER_PAGE c \<noteq> 0"
      "0 < FS_SECTORS_PER_PAGE c" "FS_SECTORS_PER_PAGE c < 65536"
  shows "map_option fst (flogfs_mount (Suc n) c (s, f)) = Some FLOG_SUCCESS"
proof -
  obtain m f1 where sc: "mount_scan c (flash_lock f) = (m, f1)" by (metis prod.exhaust)
  have fm0: "formatted c (flash_lock f)"
    using formatted_cong[of "flash_lock f" f c] fm by (simp add: flash_lock_def log_call_def)
  from mount_scan_formatted[OF fm0 geo(1,2,3)] sc
  have st1: "store f1 = store f" and la0: "la_timestamp (last_allocation m) = 0"
    and i0: "inode0_idx m = 0"
    by (simp_all add: flash_lock_def log_call_def)
  have ni: "inode0_idx m \<noteq> FLOG_BLOCK_IDX_INVALID"
    by (simp add: i0 FLOG_BLOCK_IDX_INVALID_def)
  obtain r0 s1 fa where op0: "flog_open_page c 0 0 (fs_lock s, f1) = (r0, (s1, fa))"
    by (metis prod.exhaust)
  from flog_open_page_post[OF op0] have ch: "current_open_page s1 = 0" by simp
  from flog_open_page_flash_frame[of c 0 0 "(fs_lock s, f1)"] op0 have sta: "store fa = store f1"
    by simp
  define f2 where "f2 = snd (flash_read_sector c (FLOG_INODE_TAIL_SECTOR c) 0 sizeof_flog_block_idx_t fa)"
  define iter where "iter = \<lparr>it_block = 0, it_next_block =
      le16 (fst (flash_read_sector c (FLOG_INODE_TAIL_SECTOR c) 0 sizeof_flog_block_idx_t fa)) 0,
      it_inode_idx = 0, it_sector = (of_nat (FS_SECTORS_PER_PAGE c) :: 16 word)\<rparr>"
  have ini: "flog_inode_iterator_init c (inode0_idx m) (fs_lock s, f1) = (iter, (s1, f2))"
    using op0 by (simp add: flog_inode_iterator_init_def i0 iter_def f2_def case_prod_beta)
  have st2: "store f2 = store f"
    by (simp add: f2_def read_sector_snd log_call_def sta st1)
  have us: "unat (of_nat (FS_SECTORS_PER_PAGE c) :: 16 word) = FS_SECTORS_PER_PAGE c"
    using geo(5) by (simp add: unat_of_nat)
  have pg: "(of_nat (unat (of_nat (FS_SECTORS_PER_PAGE c) :: 16 word) div FS_SECTORS_PER_PAGE c) :: 16 word) = 1"
    using geo(4) by (simp add: us)
  define f3 where "f3 = snd (flash_open_page c 0 1 f2)"
  define s2 where "s2 = s1\<lparr>page_open_result := fst (flash_open_page c 0 1 f2), page_open := 1,
                    current_open_block := 0, current_open_page := 1\<rparr>"
  have os: "flog_open_sector c (it_block iter) (it_sector iter) (s1, f2)
              = (fst (flash_open_page c 0 1 f2), (s2, f3))"
    using ch by (simp add: flog_open_sector_def iter_def pg flog_open_page_def s2_def f3_def
                   case_prod_beta)
  have c3: "cur f3 = None \<or> cur f3 = Some (0, 1)" and st3: "store f3 = store f"
    by (auto simp: f3_def flash_open_page_def log_call_def st2)
  obtain k where k: "FS_SECTORS_PER_PAGE c = Suc k" using geo(4) by (cases "FS_SECTORS_PER_PAGE c") auto
  from fm have er: "\<And>sec i. store f 0 (Suc sec) i = 0xFF" by (simp add: formatted_def)
  have si: "sector_index c (Suc 0) (FS_SECTORS_PER_PAGE c) = Suc k"
    by (simp add: sector_index_def k)
  have rdn: "fst (flash_read_sector c (unat (it_sector iter)) 0
             sizeof_flog_inode_file_allocation_header_t f3) ! i = 0xFF" if "i < 16" for i
    using that c3 by (auto simp: read_sector_nth sizeof_defs iter_def us si st3 er)
  have fid: "le32 (fst (flash_read_sector c (unat (it_sector iter)) 0
             sizeof_flog_inode_file_allocation_header_t f3)) 0 = FLOG_FILE_ID_INVALID"
    unfolding FLOG_FILE_ID_INVALID_def by (intro le32_erased) (simp_all add: rdn)
  have wk: "mount_walk (Suc n) c iter (last_allocation m) last_deletion_init (s1, f2)
      = Some (last_allocation m, last_deletion_init,
              (s2, snd (flash_read_sector c (unat (it_sector iter)) 0
                     sizeof_flog_inode_file_allocation_header_t f3)))"
    using os fid by (simp add: case_prod_beta)
  show ?thesis
    using sc ni ini wk la0
    by (simp add: flogfs_mount_def Let_def mount_check_allocation_def mount_check_deletion_def
          last_deletion_init_def)
qed

text \<open>
  Claim C3, as amended. On every medium whose block 0 is good and each of whose
  good blocks can be erased, \<^verbatim>\<open>flogfs_format\<close> returns success, and the
  \<^verbatim>\<open>flogfs_mount\<close> that follows returns success after one iteration of the inode
  walk, from any filesystem state and whatever the medium held before. The
  geometry has at least one block and one page per block, between 1 and 65535
  sectors per page, and the invalidation sector of an inode block is not the
  first sector of its page.
\<close>

theorem C3_format_then_mount:
  assumes "0 < FS_NUM_BLOCKS c" and "0 < FS_PAGES_PER_BLOCK c"
    and "0 < FS_SECTORS_PER_PAGE c" and "FS_SECTORS_PER_PAGE c < 65536"
    and "FLOG_INODE_INVALIDATION_SECTOR c mod FS_SECTORS_PER_PAGE c \<noteq> 0"
    and "\<not> bad f 0"
    and "\<forall>i < FS_NUM_BLOCKS c. bad f i \<or> \<not> worn f i"
  shows "fst (flogfs_format c (s, f)) = FLOG_SUCCESS
       \<and> map_option fst (flogfs_mount (Suc n) c (snd (flogfs_format c (s, f)))) = Some FLOG_SUCCESS"
proof -
  from flogfs_format_formatted[OF assms(1,2,6,7), of s]
  have ok: "fst (flogfs_format c (s, f)) = FLOG_SUCCESS"
    and fm: "formatted c (snd (snd (flogfs_format c (s, f))))" by simp_all
  from flogfs_mount_formatted[OF fm assms(1,2,5,3,4), of n "fst (snd (flogfs_format c (s, f)))"]
  show ?thesis using ok by simp
qed

text \<open>
  Witness for C3: a medium with stale bytes whose block 1 is bad and whose
  block 0 is good.
\<close>

theorem C3_format_then_mount_witness:
  "\<not> bad medium_stale 0 \<and> bad medium_stale 1
   \<and> fst (flogfs_format cfg (flogfs_static, medium_stale)) = FLOG_SUCCESS
   \<and> map_option fst (flogfs_mount 1 cfg (snd (flogfs_format cfg (flogfs_static, medium_stale))))
       = Some FLOG_SUCCESS"
proof -
  have g: "0 < FS_NUM_BLOCKS cfg" "0 < FS_PAGES_PER_BLOCK cfg" "0 < FS_SECTORS_PER_PAGE cfg"
    "FS_SECTORS_PER_PAGE cfg < 65536"
    "FLOG_INODE_INVALIDATION_SECTOR cfg mod FS_SECTORS_PER_PAGE cfg \<noteq> 0"
    by (simp_all add: cfg_def)
  have b: "\<not> bad medium_stale 0" "bad medium_stale 1"
    by (simp_all add: medium_stale_def mk_flash_def)
  have w: "\<forall>i < FS_NUM_BLOCKS cfg. bad medium_stale i \<or> \<not> worn medium_stale i"
    by (simp add: medium_stale_def mk_flash_def)
  from C3_format_then_mount[OF g b(1) w, of flogfs_static 0] b show ?thesis by simp
qed

section \<open>Mount: no deletion is finished\<close>

lemma flog_open_page_modifying:
  "filter is_modifying_call (calls (snd (snd (flog_open_page c b p w))))
     = filter is_modifying_call (calls (snd w))"
  by (cases w) (simp add: flog_open_page_def flash_open_page_def log_call_def split: prod.splits)

lemma reads_only_refl: "reads_only f f"
  by (simp add: reads_only_def)

lemma reads_only_trans: "reads_only a b \<Longrightarrow> reads_only b d \<Longrightarrow> reads_only a d"
  by (simp add: reads_only_def)

lemma reads_only_log_call: "\<not> is_modifying_call x \<Longrightarrow> reads_only f (log_call x f)"
  by (simp add: reads_only_def log_call_def)

lemma flog_open_page_reads_only:
  "flog_open_page c b p (s, f) = (r, (s', f')) \<Longrightarrow> reads_only f f'"
  using flog_open_page_flash_frame[of c b p "(s, f)"] flog_open_page_modifying[of c b p "(s, f)"]
  by (simp add: reads_only_def)

lemma flog_open_sector_reads_only:
  "flog_open_sector c b sec (s, f) = (r, (s', f')) \<Longrightarrow> reads_only f f'"
  unfolding flog_open_sector_def by (rule flog_open_page_reads_only)

lemma flash_read_sector_reads_only:
  "flash_read_sector c sec off n f = (buf, f') \<Longrightarrow> reads_only f f'"
  by (auto simp: flash_read_sector_def log_call_def reads_only_def)

lemma flog_inode_iterator_init_reads_only:
  "flog_inode_iterator_init c b (s, f) = (iter, (s', f')) \<Longrightarrow> reads_only f f'"
  by (auto simp: flog_inode_iterator_init_def split: prod.splits
        dest!: flog_open_page_reads_only flash_read_sector_reads_only intro: reads_only_trans)

lemma flog_inode_iterator_next_reads_only:
  "flog_inode_iterator_next c iter (s, f) = (iter', (s', f')) \<Longrightarrow> reads_only f f'"
  by (auto simp: flog_inode_iterator_next_def Let_def reads_only_refl split: prod.splits if_splits
        dest!: flog_open_page_reads_only flash_read_sector_reads_only intro: reads_only_trans)

lemma mount_scan_block_reads_only:
  "reads_only f (snd (mount_scan_block c i (m, f)))"
  by (simp add: reads_only_def mount_scan_block_def flash_defs Let_def
        split: prod.splits option.splits)

lemma mount_scan_fold_reads_only:
  "reads_only f (snd (fold (mount_scan_block c) xs (m, f)))"
proof (induction xs arbitrary: m f)
  case Nil
  then show ?case by (simp add: reads_only_refl)
next
  case (Cons i xs)
  obtain m1 f1 where st: "mount_scan_block c i (m, f) = (m1, f1)" by (metis prod.exhaust)
  from mount_scan_block_reads_only[of f c i m] st have "reads_only f f1" by simp
  with Cons.IH[of f1 m1] st show ?case by (auto intro: reads_only_trans)
qed

lemma mount_scan_reads_only:
  "mount_scan c f = (m, f') \<Longrightarrow> reads_only f f'"
  using mount_scan_fold_reads_only[of f c "[0..<FS_NUM_BLOCKS c]" mount_locals_init]
  by (simp add: mount_scan_def)

lemma mount_walk_reads_only:
  "mount_walk n c iter la ld (s, f) = Some (la', ld', (s', f')) \<Longrightarrow> reads_only f f'"
proof (induction n arbitrary: iter la ld s f)
  case 0
  then show ?case by simp
next
  case (Suc n)
  obtain r1 s1 f1 where o1: "flog_open_sector c (it_block iter) (it_sector iter) (s, f) = (r1, (s1, f1))"
    by (metis prod.exhaust)
  note fr1 = flog_open_sector_reads_only[OF o1]
  obtain buf f2 where rd1: "flash_read_sector c (unat (it_sector iter)) 0
             sizeof_flog_inode_file_allocation_header_t f1 = (buf, f2)"
    by (metis prod.exhaust)
  note fr2 = flash_read_sector_reads_only[OF rd1]
  show ?case
  proof (cases "le32 buf 0 = FLOG_FILE_ID_INVALID")
    case True
    with Suc.prems o1 rd1 have "f' = f2" by simp
    with fr1 fr2 show ?thesis by (blast intro: reads_only_trans)
  next
    case False
    obtain r2 s2 f3 where o2: "flog_open_sector c (it_block iter) (it_sector iter + 1) (s1, f2) = (r2, (s2, f3))"
      by (metis prod.exhaust)
    note fr3 = flog_open_sector_reads_only[OF o2]
    obtain ibuf f4 where rd2: "flash_read_sector c (unat (it_sector iter) + 1) 0
               sizeof_flog_inode_file_invalidation_t f3 = (ibuf, f4)"
      by (metis prod.exhaust)
    note fr4 = flash_read_sector_reads_only[OF rd2]
    obtain iter' s4 f5 where nx: "flog_inode_iterator_next c iter (s2\<lparr>max_file_id := le32 buf 0\<rparr>, f4)
         = (iter', (s4, f5))"
      by (metis prod.exhaust)
    note fr5 = flog_inode_iterator_next_reads_only[OF nx]
    from Suc.prems o1 rd1 False o2 rd2 nx
    obtain la2 ld2 where rec: "mount_walk n c iter' la2 ld2 (s4, f5) = Some (la', ld', (s', f'))"
      by (simp add: Let_def)
    note fr6 = Suc.IH[OF rec]
    from fr1 fr2 fr3 fr4 fr5 fr6 show ?thesis by (blast intro: reads_only_trans)
  qed
qed

lemma mount_check_deletion_reads_only:
  "mount_check_deletion c ld (s, f) = Some (ok, (s', f')) \<Longrightarrow> reads_only f f'"
  by (auto simp: mount_check_deletion_def Let_def reads_only_def flash_debug_error_def log_call_def
        split: if_splits prod.splits option.splits
        dest!: flog_open_sector_reads_only[unfolded reads_only_def]
               flash_read_sector_reads_only[unfolded reads_only_def])

lemma mount_check_allocation_calls:
  assumes "mount_check_allocation c la (s, f) = (s', f')"
  shows "reads_only f f'
     \<or> (\<exists>hdr sp. filter is_modifying_call (calls f') = filter is_modifying_call (calls f) @
          [Call_erase_block (unat (la_block la)),
           Call_write_sector hdr 0 0 sizeof_flog_file_sector0_header_t,
           Call_write_spare sp 0, Call_commit])"
proof (cases "la_timestamp la > 0")
  case False
  with assms show ?thesis by (simp add: mount_check_allocation_def reads_only_refl)
next
  case True
  obtain r s1 f1 where o1: "flog_open_sector c (la_block la) 0 (s, f) = (r, (s1, f1))"
    by (metis prod.exhaust)
  note k1 = flog_open_sector_reads_only[OF o1]
  obtain buf f2 where rd: "flash_read_sector c 0 0 sizeof_flog_file_sector0_header_t f1 = (buf, f2)"
    by (metis prod.exhaust)
  note k2 = flash_read_sector_reads_only[OF rd]
  from k1 k2 have k: "reads_only f f2" by (rule reads_only_trans)
  show ?thesis
  proof (cases "le32 buf 4 \<noteq> la_file_id la")
    case False
    with True assms o1 rd have "f' = f2" by (simp add: mount_check_allocation_def)
    with k show ?thesis by simp
  next
    case ne: True
    obtain e f3 where er: "flash_erase_block c (unat (la_block la)) f2 = (e, f3)"
      by (metis prod.exhaust)
    then have c3: "filter is_modifying_call (calls f3)
        = filter is_modifying_call (calls f2) @ [Call_erase_block (unat (la_block la))]"
      by (auto simp: flash_erase_block_def log_call_def split: if_splits)
    obtain r' s2 f4 where o2: "flog_open_page c (la_block la) 0 (s1, f3) = (r', (s2, f4))"
      by (metis prod.exhaust)
    from flog_open_page_reads_only[OF o2]
    have c4: "filter is_modifying_call (calls f4) = filter is_modifying_call (calls f3)"
      by (simp add: reads_only_def)
    from True ne assms o1 rd er o2 c3 c4 k show ?thesis
      by (auto simp: mount_check_allocation_def Let_def reads_only_def flash_write_sector_def
            flash_write_spare_def flash_commit_def log_call_def sizeof_defs enc16_def
            split: option.splits)
  qed
qed

text \<open>
  Claim C5 (the code departs from it). Whatever the mount finds, it finishes no
  deletion. When \<^verbatim>\<open>flogfs_mount\<close> returns, either no driver call that changes the
  medium was made and the medium holds the bytes it held at entry, or the only
  such calls are the four of the allocation recovery, in this order: the erase
  of one block, the write of a file header to sector 0, the write of the spare
  of sector 0, and the commit. No invalidation record is written and no block of
  a chain is touched on any path, the one of a stalled deletion among them, where
  the C code says \<^verbatim>\<open>TODO: Actually go and invalidate the chain now\<close> and takes
  \<^verbatim>\<open>goto failure\<close>. This holds in every build, whatever the read past the 8-byte
  union does to \<^verbatim>\<open>last_deletion\<close>.
\<close>

theorem C5_mount_invalidates_nothing:
  "(case flogfs_mount fuel c (s, f) of
      None \<Rightarrow> True
    | Some (r, (s', f')) \<Rightarrow>
        reads_only f f'
        \<or> (\<exists>b hdr sp. filter is_modifying_call (calls f') = filter is_modifying_call (calls f) @
             [Call_erase_block b,
              Call_write_sector hdr 0 0 sizeof_flog_file_sector0_header_t,
              Call_write_spare sp 0, Call_commit]))"
proof (cases "flogfs_mount fuel c (s, f)")
  case None
  then show ?thesis by simp
next
  case (Some res)
  obtain r s' f' where res: "res = (r, (s', f'))" by (metis prod.exhaust)
  with Some have mt: "flogfs_mount fuel c (s, f) = Some (r, (s', f'))" by simp
  have k0: "reads_only f (flash_lock f)"
    by (simp add: reads_only_def flash_lock_def log_call_def)
  obtain m f1 where sc: "mount_scan c (flash_lock f) = (m, f1)" by (metis prod.exhaust)
  from k0 mount_scan_reads_only[OF sc] have k1: "reads_only f f1" by (rule reads_only_trans)
  have goal: "reads_only f f'
        \<or> (\<exists>b hdr sp. filter is_modifying_call (calls f') = filter is_modifying_call (calls f) @
             [Call_erase_block b,
              Call_write_sector hdr 0 0 sizeof_flog_file_sector0_header_t,
              Call_write_spare sp 0, Call_commit])"
  proof (cases "inode0_idx m = FLOG_BLOCK_IDX_INVALID")
    case True
    with mt sc have "f' = flash_unlock (flash_debug_error f1)"
      by (simp add: flogfs_mount_def Let_def)
    with k1 have "reads_only f f'"
      by (simp add: reads_only_def flash_unlock_def flash_debug_error_def log_call_def)
    then show ?thesis by simp
  next
    case False
    obtain iter s1 f2 where ini: "flog_inode_iterator_init c (inode0_idx m) (fs_lock s, f1) = (iter, (s1, f2))"
      by (metis prod.exhaust)
    note k2 = flog_inode_iterator_init_reads_only[OF ini]
    from mt sc False ini obtain la ld s2 f3 where
      wk: "mount_walk fuel c iter (last_allocation m) last_deletion_init (s1, f2) = Some (la, ld, (s2, f3))"
      by (auto simp: flogfs_mount_def Let_def split: option.splits)
    note k3 = mount_walk_reads_only[OF wk]
    obtain s3 f4 where al: "mount_check_allocation c la (s2, f3) = (s3, f4)" by (metis prod.exhaust)
    from mt sc False ini wk al obtain ok s4 f5 where
      de: "mount_check_deletion c ld (s3, f4) = Some (ok, (s4, f5))"
      by (auto simp: flogfs_mount_def Let_def split: option.splits)
    note k5 = mount_check_deletion_reads_only[OF de]
    from mt sc False ini wk al de have e: "f' = flash_unlock f5"
      by (auto simp: flogfs_mount_def Let_def)
    have k6: "reads_only f5 f'"
      using e by (simp add: reads_only_def flash_unlock_def log_call_def)
    from k1 k2 k3 have k13: "reads_only f f3" by (blast intro: reads_only_trans)
    from k5 k6 have k46: "reads_only f4 f'" by (rule reads_only_trans)
    from mount_check_allocation_calls[OF al] show ?thesis
    proof
      assume "reads_only f3 f4"
      with k13 k46 have "reads_only f f'" by (blast intro: reads_only_trans)
      then show ?thesis by simp
    next
      assume "\<exists>hdr sp. filter is_modifying_call (calls f4) = filter is_modifying_call (calls f3) @
          [Call_erase_block (unat (la_block la)),
           Call_write_sector hdr 0 0 sizeof_flog_file_sector0_header_t,
           Call_write_spare sp 0, Call_commit]"
      with k13 k46 show ?thesis by (auto simp: reads_only_def)
    qed
  qed
  with mt show ?thesis by simp
qed

text \<open>The stalled deletion on a concrete medium: the entry of file 1 carries its
  invalidation record, and block 1, the last block of the file, still holds the
  file with an erased invalidation sector. The mount makes no call that changes
  the medium and leaves the header of block 1 as it was. What it returns depends
  on the build: \<open>FLOG_FAILURE\<close> where the read past the union leaves
  \<^verbatim>\<open>last_deletion\<close> alone, \<open>FLOG_SUCCESS\<close> where it lands on
  \<^verbatim>\<open>last_deletion.file_id\<close>.\<close>

lemma stalled_deletion_in_two_builds:
  "map_option (\<lambda>(r, (s', f')). (r, filter is_modifying_call (calls f'), map (store f' 1 0) [0..<8]))
     (flogfs_mount 3 cfg (flogfs_static, medium_deleting))
     = Some (FLOG_FAILURE, [], [0, 0, 0, 0, 1, 0, 0, 0])
   \<and> map_option (\<lambda>(r, (s', f')). (r, filter is_modifying_call (calls f'), map (store f' 1 0) [0..<8]))
     (flogfs_mount 3 cfg_overrun_hits (flogfs_static, medium_deleting))
     = Some (FLOG_SUCCESS, [], [0, 0, 0, 0, 1, 0, 0, 0])
   \<and> map (store medium_deleting 1 (FLOG_FILE_INVALIDATION_SECTOR cfg)) [0..<4]
       = [0xFF, 0xFF, 0xFF, 0xFF]"
  by code_simp

section \<open>What a failure leaves behind\<close>

lemma fs_frame_refl: "fs_frame s s"
  by (simp add: fs_frame_def)

lemma fs_frame_trans: "fs_frame a b \<Longrightarrow> fs_frame b d \<Longrightarrow> fs_frame a d"
  by (simp add: fs_frame_def)

lemma fs_frame_eq:
  "fs_frame s s' \<Longrightarrow>
     s' = s\<lparr>max_file_id := max_file_id s', t := t s',
            current_open_block := current_open_block s',
            current_open_page := current_open_page s', page_open := page_open s',
            page_open_result := page_open_result s', lock := lock s'\<rparr>"
  by (simp add: fs_frame_def)

lemma cache_frame_refl: "cache_frame s s"
  by (simp add: cache_frame_def fs_frame_def)

lemma cache_frame_trans: "cache_frame a b \<Longrightarrow> cache_frame b d \<Longrightarrow> cache_frame a d"
  by (simp add: cache_frame_def fs_frame_def)

lemma cache_frame_eq:
  "cache_frame s s' \<Longrightarrow>
     s' = s\<lparr>current_open_block := current_open_block s',
            current_open_page := current_open_page s', page_open := page_open s',
            page_open_result := page_open_result s', lock := lock s'\<rparr>"
  by (simp add: cache_frame_def fs_frame_def)

lemma cache_frame_fs_frame: "cache_frame s s' \<Longrightarrow> fs_frame s s'"
  by (simp add: cache_frame_def)

lemma flog_open_page_cache_frame:
  "flog_open_page c b p (s, f) = (r, (s', f')) \<Longrightarrow> cache_frame s s'"
  by (auto simp: flog_open_page_def cache_frame_def fs_frame_def split: if_splits prod.splits)

lemma flog_open_sector_cache_frame:
  "flog_open_sector c b sec (s, f) = (r, (s', f')) \<Longrightarrow> cache_frame s s'"
  unfolding flog_open_sector_def by (rule flog_open_page_cache_frame)

lemma flog_inode_iterator_init_cache_frame:
  "flog_inode_iterator_init c b (s, f) = (iter, (s', f')) \<Longrightarrow> cache_frame s s'"
  by (auto simp: flog_inode_iterator_init_def split: prod.splits dest: flog_open_page_cache_frame)

lemma flog_inode_iterator_next_cache_frame:
  "flog_inode_iterator_next c iter (s, f) = (iter', (s', f')) \<Longrightarrow> cache_frame s s'"
  by (auto simp: flog_inode_iterator_next_def Let_def cache_frame_refl
        split: prod.splits if_splits dest: flog_open_page_cache_frame)

lemmas flog_open_sector_frame = flog_open_sector_cache_frame[THEN cache_frame_fs_frame]
lemmas flog_open_page_frame = flog_open_page_cache_frame[THEN cache_frame_fs_frame]
lemmas flog_inode_iterator_init_frame = flog_inode_iterator_init_cache_frame[THEN cache_frame_fs_frame]
lemmas flog_inode_iterator_next_frame = flog_inode_iterator_next_cache_frame[THEN cache_frame_fs_frame]

lemma mount_walk_frame:
  "mount_walk n c iter la ld (s, f) = Some (la', ld', (s', f')) \<Longrightarrow> fs_frame s s'"
proof (induction n arbitrary: iter la ld s f)
  case 0
  then show ?case by simp
next
  case (Suc n)
  obtain r1 s1 f1 where o1: "flog_open_sector c (it_block iter) (it_sector iter) (s, f) = (r1, (s1, f1))"
    by (metis prod.exhaust)
  note fr1 = flog_open_sector_frame[OF o1]
  obtain buf f2 where rd1: "flash_read_sector c (unat (it_sector iter)) 0
             sizeof_flog_inode_file_allocation_header_t f1 = (buf, f2)"
    by (metis prod.exhaust)
  show ?case
  proof (cases "le32 buf 0 = FLOG_FILE_ID_INVALID")
    case True
    with Suc.prems o1 rd1 have "s' = s1" by simp
    with fr1 show ?thesis by simp
  next
    case False
    obtain r2 s2 f3 where o2: "flog_open_sector c (it_block iter) (it_sector iter + 1) (s1, f2) = (r2, (s2, f3))"
      by (metis prod.exhaust)
    note fr2 = flog_open_sector_frame[OF o2]
    obtain ibuf f4 where rd2: "flash_read_sector c (unat (it_sector iter) + 1) 0
               sizeof_flog_inode_file_invalidation_t f3 = (ibuf, f4)"
      by (metis prod.exhaust)
    obtain iter' s4 f5 where nx: "flog_inode_iterator_next c iter (s2\<lparr>max_file_id := le32 buf 0\<rparr>, f4)
         = (iter', (s4, f5))"
      by (metis prod.exhaust)
    note fr3 = flog_inode_iterator_next_frame[OF nx]
    have fr23: "fs_frame s2 (s2\<lparr>max_file_id := le32 buf 0\<rparr>)" by (simp add: fs_frame_def)
    from Suc.prems o1 rd1 False o2 rd2 nx
    obtain la2 ld2 where rec: "mount_walk n c iter' la2 ld2 (s4, f5) = Some (la', ld', (s', f'))"
      by (simp add: Let_def)
    note fr4 = Suc.IH[OF rec]
    from fr1 fr2 fr23 fr3 fr4 show ?thesis by (blast intro: fs_frame_trans)
  qed
qed

lemma mount_check_allocation_frame:
  "mount_check_allocation c la (s, f) = (s', f') \<Longrightarrow> fs_frame s s'"
  by (auto simp: mount_check_allocation_def Let_def fs_frame_def
        split: if_splits prod.splits
        dest!: flog_open_sector_frame flog_open_page_frame)

lemma mount_check_deletion_frame:
  "mount_check_deletion c ld (s, f) = Some (ok, (s', f')) \<Longrightarrow> cache_frame s s'"
  by (auto simp: mount_check_deletion_def Let_def cache_frame_refl
        split: if_splits prod.splits option.splits
        dest!: flog_open_sector_cache_frame intro: cache_frame_trans)

lemma flogfs_mount_frame:
  assumes "flogfs_mount fuel c (s, f) = Some (r, (s', f'))"
  shows "fs_frame s s' \<and> lock s' = False \<and> locked f' = False"
proof -
  obtain m f1 where sc: "mount_scan c (flash_lock f) = (m, f1)" by (metis prod.exhaust)
  show ?thesis
  proof (cases "inode0_idx m = FLOG_BLOCK_IDX_INVALID")
    case True
    with assms sc show ?thesis
      by (auto simp: flogfs_mount_def Let_def fs_frame_def fs_lock_def fs_unlock_def
            flash_unlock_def log_call_def)
  next
    case False
    obtain iter s1 f2 where ini: "flog_inode_iterator_init c (inode0_idx m) (fs_lock s, f1) = (iter, (s1, f2))"
      by (metis prod.exhaust)
    note fr1 = flog_inode_iterator_init_frame[OF ini]
    from assms sc False ini obtain la ld s2 f3 where
      wk: "mount_walk fuel c iter (last_allocation m) last_deletion_init (s1, f2) = Some (la, ld, (s2, f3))"
      by (auto simp: flogfs_mount_def Let_def split: option.splits)
    note fr2 = mount_walk_frame[OF wk]
    obtain s3 f4 where al: "mount_check_allocation c la (s2, f3) = (s3, f4)" by (metis prod.exhaust)
    note fr3 = mount_check_allocation_frame[OF al]
    from assms sc False ini wk al obtain ok s4 f5 where
      de: "mount_check_deletion c ld (s3, f4) = Some (ok, (s4, f5))"
      by (auto simp: flogfs_mount_def Let_def split: option.splits)
    note fr4 = mount_check_deletion_frame[OF de, THEN cache_frame_fs_frame]
    from assms sc False ini wk al de have e: "s' = fs_unlock s4" "f' = flash_unlock f5"
      by (auto simp: flogfs_mount_def Let_def)
    have fr0: "fs_frame s (fs_lock s)" by (simp add: fs_frame_def fs_lock_def)
    have fr5: "fs_frame s4 (fs_unlock s4)" by (simp add: fs_frame_def fs_unlock_def)
    from fr0 fr1 fr2 fr3 fr4 fr5 have "fs_frame s (fs_unlock s4)"
      by (blast intro: fs_frame_trans)
    with e show ?thesis by (simp add: fs_unlock_def flash_unlock_def log_call_def)
  qed
qed

lemma flogfs_mount_no_inode0:
  assumes "flogfs_mount fuel c (s, f) = Some (r, (s', f'))"
    and "inode0_idx (fst (mount_scan c (flash_lock f))) = FLOG_BLOCK_IDX_INVALID"
  shows "r = FLOG_FAILURE \<and> s' = s\<lparr>lock := False\<rparr>"
  using assms
  by (auto simp: flogfs_mount_def Let_def fs_lock_def fs_unlock_def split: prod.splits)

lemma flogfs_format_failure:
  assumes "flogfs_format c (s, f) = (FLOG_FAILURE, (s', f'))"
  shows "s' = s\<lparr>lock := False\<rparr> \<and> locked f' = False"
  using assms
  by (auto simp: flogfs_format_def Let_def fs_lock_def fs_unlock_def flash_unlock_def log_call_def
        split: prod.splits if_splits)

lemma flogfs_init_frame:
  assumes "flogfs_init (s, f) = (r, (s', f'))"
  shows "s' = s\<lparr>state := FLOG_STATE_RESET, max_file_id := 0, max_block_sequence := 0,
                 page_open := 0\<rparr> \<and> locked f' = locked f"
  using assms by (auto simp: flogfs_init_def flash_init_def log_call_def)

lemma open_read_loop_frame:
  "open_read_loop n c fn iter fh (s, f) = Some (how, file', (s', f')) \<Longrightarrow> cache_frame s s'"
proof (induction n arbitrary: iter fh s f)
  case 0
  then show ?case by simp
next
  case (Suc n)
  obtain r1 s1 f1 where o1: "flog_open_sector c (it_block iter) (it_sector iter) (s, f) = (r1, (s1, f1))"
    by (metis prod.exhaust)
  note fr1 = flog_open_sector_cache_frame[OF o1]
  obtain buf f2 where rd1: "flash_read_sector c (unat (it_sector iter)) 0
             (sizeof_flog_inode_file_allocation_t c) f1 = (buf, f2)"
    by (metis prod.exhaust)
  show ?case
  proof (cases "le32 buf 0 = FLOG_FILE_ID_INVALID")
    case True
    with Suc.prems o1 rd1 have "s' = s1" by simp
    with fr1 show ?thesis by simp
  next
    case valid: False
    show ?thesis
    proof (cases "strncmp_eq fn (drop 16 buf) (FLOG_MAX_FNAME_LEN c)")
      case False
      obtain iter' s2 f3 where nx: "flog_inode_iterator_next c iter (s1, f2) = (iter', (s2, f3))"
        by (metis prod.exhaust)
      from Suc.prems o1 rd1 valid False nx
      have rec: "open_read_loop n c fn iter' fh (s2, f3) = Some (how, file', (s', f'))"
        by simp
      from fr1 flog_inode_iterator_next_cache_frame[OF nx] Suc.IH[OF rec] show ?thesis
        by (blast intro: cache_frame_trans)
    next
      case True
      obtain r2 s2 f3 where o2: "flog_open_sector c (it_block iter) (it_sector iter + 1) (s1, f2) = (r2, (s2, f3))"
        by (metis prod.exhaust)
      note fr2 = flog_open_sector_cache_frame[OF o2]
      obtain rd f4 where rd2: "flash_read_sector c (unat (it_sector iter) + 1) 0 sizeof_flog_timestamp_t f3 = (rd, f4)"
        by (metis prod.exhaust)
      show ?thesis
      proof (cases "le32 (buf_load rd buf) 0 \<noteq> FLOG_TIMESTAMP_INVALID")
        case True
        obtain iter' s3 f5 where nx: "flog_inode_iterator_next c iter (s2, f4) = (iter', (s3, f5))"
          by (metis prod.exhaust)
        from Suc.prems o1 rd1 valid \<open>strncmp_eq fn (drop 16 buf) (FLOG_MAX_FNAME_LEN c)\<close> o2 rd2 True nx
        have rec: "open_read_loop n c fn iter' fh (s3, f5) = Some (how, file', (s', f'))"
          by (simp add: Let_def)
        from fr1 fr2 flog_inode_iterator_next_cache_frame[OF nx] Suc.IH[OF rec] show ?thesis
          by (blast intro: cache_frame_trans)
      next
        case False
        obtain r3 s3 f5 where o3: "flog_open_sector c (le16 (buf_load rd buf) 4) 0 (s2, f4) = (r3, (s3, f5))"
          by (metis prod.exhaust)
        note fr3 = flog_open_sector_cache_frame[OF o3]
        obtain sp f6 where rs: "flash_read_spare c 0 f5 = (sp, f6)" by (metis prod.exhaust)
        obtain r4 s4 f7 where o4: "flog_open_sector c (le16 (buf_load rd buf) 4) 1 (s3, f6) = (r4, (s4, f7))"
          by (metis prod.exhaust)
        note fr4 = flog_open_sector_cache_frame[OF o4]
        from Suc.prems o1 rd1 valid \<open>strncmp_eq fn (drop 16 buf) (FLOG_MAX_FNAME_LEN c)\<close> o2 rd2 False o3 rs o4
        have "s' = s3 \<or> s' = s4"
          by (auto simp: Let_def split: if_splits prod.splits)
        with fr1 fr2 fr3 fr4 show ?thesis by (blast intro: cache_frame_trans)
      qed
    qed
  qed
qed

lemma flogfs_open_read_frame:
  assumes "flogfs_open_read fuel c file fn (s, f) = Some (r, file', (s', f'))"
    and "\<not> FLOG_MAX_FNAME_LEN c \<le> strlen fn"
  shows "cache_frame s s' \<and> lock s' = False \<and> locked f' = False"
proof -
  obtain iter s1 f1 where ini: "flog_inode_iterator_init c (inode0 (fs_lock s)) (fs_lock s, f) = (iter, (s1, f1))"
    by (metis prod.exhaust)
  note fr1 = flog_inode_iterator_init_cache_frame[OF ini]
  from assms ini obtain how s2 f2 where
    lp: "open_read_loop fuel c fn iter file (s1, f1) = Some (how, file', (s2, f2))"
    and e: "s' = fs_unlock s2" "f' = flash_unlock f2"
    by (auto simp: flogfs_open_read_def Let_def split: option.splits loop_exit.splits)
  note fr2 = open_read_loop_frame[OF lp]
  have fr0: "cache_frame s (fs_lock s)" by (simp add: cache_frame_def fs_frame_def fs_lock_def)
  have fr3: "cache_frame s2 (fs_unlock s2)" by (simp add: cache_frame_def fs_frame_def fs_unlock_def)
  from fr0 fr1 fr2 fr3 have "cache_frame s (fs_unlock s2)" by (blast intro: cache_frame_trans)
  with e show ?thesis by (simp add: fs_unlock_def flash_unlock_def log_call_def)
qed

text \<open>
  Claim C6, as amended. What each public operation leaves behind when it returns
  \<open>FLOG_FAILURE\<close>:

  \<^item> \<^verbatim>\<open>flogfs_init\<close> has reset \<open>state\<close>, \<open>max_file_id\<close>, \<open>max_block_sequence\<close> and
    \<open>page_open\<close> before it calls the driver; every other field is as at entry,
    and it takes and releases no lock.
  \<^item> \<^verbatim>\<open>flogfs_format\<close> leaves the filesystem state as at entry, with both locks
    released.
  \<^item> \<^verbatim>\<open>flogfs_mount\<close> releases both locks and leaves every field other than
    \<open>max_file_id\<close>, \<open>t\<close> and the page cache (\<open>current_open_block\<close>,
    \<open>current_open_page\<close>, \<open>page_open\<close>, \<open>page_open_result\<close>) as at entry; when the
    failure is the missing inode block 0, the whole state is as at entry.
  \<^item> \<^verbatim>\<open>flogfs_open_read\<close> with a filename of \<open>FLOG_MAX_FNAME_LEN\<close> bytes or more
    leaves state, flash and handle as at entry; otherwise it releases both locks
    and leaves every field other than the page cache as at entry.

  These are the public operations that the C file implements; the body of
  \<^verbatim>\<open>flogfs_open_write\<close> is empty.
\<close>

theorem C6_failure_frame:
  "(flogfs_init (s, f) = (FLOG_FAILURE, (s1, f1)) \<longrightarrow>
      s1 = s\<lparr>state := FLOG_STATE_RESET, max_file_id := 0, max_block_sequence := 0,
               page_open := 0\<rparr>
      \<and> locked f1 = locked f)
   \<and> (flogfs_format c (s, f) = (FLOG_FAILURE, (s2, f2)) \<longrightarrow>
        s2 = s\<lparr>lock := False\<rparr> \<and> locked f2 = False)
   \<and> (flogfs_mount fuel c (s, f) = Some (FLOG_FAILURE, (s3, f3)) \<longrightarrow>
        lock s3 = False \<and> locked f3 = False
        \<and> s3 = s\<lparr>max_file_id := max_file_id s3, t := t s3,
                   current_open_block := current_open_block s3,
                   current_open_page := current_open_page s3, page_open := page_open s3,
                   page_open_result := page_open_result s3, lock := False\<rparr>
        \<and> (inode0_idx (fst (mount_scan c (flash_lock f))) = FLOG_BLOCK_IDX_INVALID
             \<longrightarrow> s3 = s\<lparr>lock := False\<rparr>))
   \<and> (flogfs_open_read fuel c file filename (s, f) = Some (FLOG_FAILURE, file', (s4, f4)) \<longrightarrow>
        (if FLOG_MAX_FNAME_LEN c \<le> strlen filename
         then s4 = s \<and> f4 = f \<and> file' = file
         else lock s4 = False \<and> locked f4 = False
            \<and> s4 = s\<lparr>current_open_block := current_open_block s4,
                       current_open_page := current_open_page s4, page_open := page_open s4,
                       page_open_result := page_open_result s4, lock := False\<rparr>))"
proof -
  have M: "lock s3 = False \<and> locked f3 = False
        \<and> s3 = s\<lparr>max_file_id := max_file_id s3, t := t s3,
                   current_open_block := current_open_block s3,
                   current_open_page := current_open_page s3, page_open := page_open s3,
                   page_open_result := page_open_result s3, lock := False\<rparr>
        \<and> (inode0_idx (fst (mount_scan c (flash_lock f))) = FLOG_BLOCK_IDX_INVALID
             \<longrightarrow> s3 = s\<lparr>lock := False\<rparr>)"
    if m: "flogfs_mount fuel c (s, f) = Some (FLOG_FAILURE, (s3, f3))"
  proof -
    from flogfs_mount_frame[OF m] have fr: "fs_frame s s3" and l: "lock s3 = False"
      and fl: "locked f3 = False" by simp_all
    from fs_frame_eq[OF fr] l have e: "s3 = s\<lparr>max_file_id := max_file_id s3, t := t s3,
                   current_open_block := current_open_block s3,
                   current_open_page := current_open_page s3, page_open := page_open s3,
                   page_open_result := page_open_result s3, lock := False\<rparr>" by simp
    from flogfs_mount_no_inode0[OF m] l fl e show ?thesis by blast
  qed
  have R: "(if FLOG_MAX_FNAME_LEN c \<le> strlen filename
         then s4 = s \<and> f4 = f \<and> file' = file
         else lock s4 = False \<and> locked f4 = False
            \<and> s4 = s\<lparr>current_open_block := current_open_block s4,
                       current_open_page := current_open_page s4, page_open := page_open s4,
                       page_open_result := page_open_result s4, lock := False\<rparr>)"
    if r: "flogfs_open_read fuel c file filename (s, f) = Some (FLOG_FAILURE, file', (s4, f4))"
  proof (cases "FLOG_MAX_FNAME_LEN c \<le> strlen filename")
    case True
    with r show ?thesis by (simp add: flogfs_open_read_def)
  next
    case False
    from flogfs_open_read_frame[OF r False] have fr: "cache_frame s s4" and l: "lock s4 = False"
      and fl: "locked f4 = False" by simp_all
    from cache_frame_eq[OF fr] l False fl show ?thesis by simp
  qed
  from M R flogfs_format_failure[of c s f s2 f2] flogfs_init_frame[of s f FLOG_FAILURE s1 f1]
  show ?thesis by blast
qed

text \<open>
  Claim C6, counterexample. After a successful mount of the medium with the live
  file (\<open>max_file_id = 1\<close>, a page open in the cache), \<^verbatim>\<open>flogfs_init\<close> on a driver
  whose \<^verbatim>\<open>flash_init\<close> fails returns \<open>FLOG_FAILURE\<close> with \<open>max_file_id\<close> and
  \<open>page_open\<close> reset to 0. And \<^verbatim>\<open>flogfs_open_read\<close> of the name "c" on the medium
  whose inode chain leads to a block that does not exist returns \<open>FLOG_FAILURE\<close>
  after the driver failed to open that block, with the page cache changed from
  (block 0, page 0, closed) to (block 5, page 1, open, failed); it made no call
  that changes the medium.
\<close>

theorem C6_counterexample:
  "(case flogfs_mount 3 cfg (flogfs_static, medium_live) of
      None \<Rightarrow> False
    | Some (r, (s1, f1)) \<Rightarrow>
        r = FLOG_SUCCESS \<and> max_file_id s1 = 1 \<and> page_open s1 = 1
        \<and> (case flogfs_init (s1, f1\<lparr>init_fails := True\<rparr>) of
             (r', (s2, f2)) \<Rightarrow>
               r' = FLOG_FAILURE \<and> max_file_id s2 = 0 \<and> page_open s2 = 0))
   \<and> (case flogfs_open_read 4 cfg file0 [0x63] (flogfs_static, medium_dangling) of
         None \<Rightarrow> False
       | Some (r, file', (s', f')) \<Rightarrow>
           r = FLOG_FAILURE
           \<and> (current_open_block flogfs_static, current_open_page flogfs_static,
               page_open flogfs_static, page_open_result flogfs_static)
              = (0, 0, 0, FLOG_FAILURE)
           \<and> (current_open_block s', current_open_page s', page_open s', page_open_result s')
              = (5, 1, 1, FLOG_FAILURE)
           \<and> filter is_modifying_call (calls f') = [])"
  by code_simp

text \<open>
  Witness for C6: \<^verbatim>\<open>flogfs_init\<close> on a driver whose \<^verbatim>\<open>flash_init\<close> fails,
  \<^verbatim>\<open>flogfs_format\<close> on the medium whose block 1 cannot be erased, \<^verbatim>\<open>flogfs_mount\<close>
  on the medium without inode block 0, and \<^verbatim>\<open>flogfs_open_read\<close> of the name "c"
  on the medium whose inode chain leads to a block that does not exist.
\<close>

theorem C6_failure_frame_witness:
  "(case flogfs_init (flogfs_static\<lparr>max_file_id := 1, page_open := 1\<rparr>,
                      medium_live\<lparr>init_fails := True\<rparr>) of
      (r, (s', f')) \<Rightarrow> r = FLOG_FAILURE \<and> s' = flogfs_static \<and> locked f' = False)
   \<and> (case flogfs_format cfg (flogfs_static, medium_worn) of
      (r, (s', f')) \<Rightarrow> r = FLOG_FAILURE \<and> locked f' = False \<and> s' = flogfs_static)
   \<and> inode0_idx (fst (mount_scan cfg (flash_lock medium_bad0))) = FLOG_BLOCK_IDX_INVALID
   \<and> (case flogfs_mount 3 cfg (flogfs_static, medium_bad0) of
      None \<Rightarrow> False
    | Some (r, (s', f')) \<Rightarrow>
        r = FLOG_FAILURE \<and> lock s' = False \<and> locked f' = False \<and> s' = flogfs_static)
   \<and> (case flogfs_open_read 4 cfg file0 [0x63] (flogfs_static, medium_dangling) of
      None \<Rightarrow> False
    | Some (r, file', (s', f')) \<Rightarrow>
        r = FLOG_FAILURE \<and> lock s' = False \<and> locked f' = False
        \<and> s' = flogfs_static\<lparr>current_open_block := 5, current_open_page := 1,
                               page_open := 1, page_open_result := FLOG_FAILURE\<rparr>)"
proof -
  let ?s0 = "flogfs_static\<lparr>max_file_id := 1, page_open := 1\<rparr>"
  let ?f0 = "medium_live\<lparr>init_fails := True\<rparr>"
  let ?in = "flogfs_init (?s0, ?f0)"
  let ?fm = "flogfs_format cfg (flogfs_static, medium_worn)"
  let ?mt = "flogfs_mount 3 cfg (flogfs_static, medium_bad0)"
  let ?rd = "flogfs_open_read 4 cfg file0 [0x63] (flogfs_static, medium_dangling)"
  have st: "flogfs_static\<lparr>lock := False\<rparr> = flogfs_static"
    "lock flogfs_static = False"
    "?s0\<lparr>state := FLOG_STATE_RESET, max_file_id := 0, max_block_sequence := 0, page_open := 0\<rparr>
       = flogfs_static"
    by (simp_all add: flogfs_static_def)
  have r0: "fst ?in = FLOG_FAILURE" "locked ?f0 = False" by code_simp+
  then obtain s1 f1 where m0: "?in = (FLOG_FAILURE, (s1, f1))" by (cases ?in) auto
  have r1: "fst ?fm = FLOG_FAILURE" by code_simp
  then obtain s2 f2 where m1: "?fm = (FLOG_FAILURE, (s2, f2))" by (cases ?fm) auto
  have r2: "map_option fst ?mt = Some FLOG_FAILURE" by code_simp
  then obtain s3 f3 where m2: "?mt = Some (FLOG_FAILURE, (s3, f3))" by (cases ?mt) auto
  have i2: "inode0_idx (fst (mount_scan cfg (flash_lock medium_bad0))) = FLOG_BLOCK_IDX_INVALID"
    by code_simp
  have r3: "map_option fst ?rd = Some FLOG_FAILURE" by code_simp
  then obtain fl s4 f4 where m3: "?rd = Some (FLOG_FAILURE, fl, (s4, f4))" by (cases ?rd) auto
  have v3: "map_option (\<lambda>(r, fl, (s, f)). (current_open_block s, current_open_page s,
               page_open s, page_open_result s)) ?rd = Some (5, 1, 1, FLOG_FAILURE)"
    by code_simp
  have n3: "\<not> FLOG_MAX_FNAME_LEN cfg \<le> strlen [0x63]" by code_simp
  from C6_failure_frame[of ?s0 ?f0 s1 f1] m0 r0 st
  have p0: "s1 = flogfs_static \<and> locked f1 = False" by simp
  from C6_failure_frame[of flogfs_static medium_worn _ _ cfg s2 f2] m1 st
  have p1: "locked f2 = False \<and> s2 = flogfs_static" by simp
  from C6_failure_frame[of flogfs_static medium_bad0 _ _ cfg _ _ 3 s3 f3] m2 i2 st
  have p2: "lock s3 = False \<and> locked f3 = False \<and> s3 = flogfs_static" by simp
  from C6_failure_frame[of flogfs_static medium_dangling _ _ cfg _ _ 4 _ _ file0 "[0x63]" fl s4 f4]
    m3 v3 n3 st
  have p3: "lock s4 = False \<and> locked f4 = False
        \<and> s4 = flogfs_static\<lparr>current_open_block := 5, current_open_page := 1,
                               page_open := 1, page_open_result := FLOG_FAILURE\<rparr>"
    by simp
  from p0 p1 p2 p3 m0 m1 m2 m3 i2 st show ?thesis by simp
qed

section \<open>Mount: the largest file id\<close>

lemma is_inode0_cong:
  "store f' = store f \<Longrightarrow> spares f' = spares f \<Longrightarrow> bad f' = bad f \<Longrightarrow>
     is_inode0 c f' = is_inode0 c f"
  by (rule ext) (simp add: is_inode0_def)

lemma inode_tail_next_block_cong:
  "store f' = store f \<Longrightarrow> inode_tail_next_block c f' = inode_tail_next_block c f"
  by (rule ext) (simp add: inode_tail_next_block_def)

lemma inode_entry_file_id_cong:
  "store f' = store f \<Longrightarrow> inode_entry_file_id c f' = inode_entry_file_id c f"
  by (rule ext, rule ext) (simp add: inode_entry_file_id_def)

lemma inode_chain_file_ids_cong:
  "store f' = store f \<Longrightarrow> inode_chain_file_ids n c f' b sec = inode_chain_file_ids n c f b sec"
  by (induction n arbitrary: b sec)
     (simp_all add: inode_entry_file_id_cong[of f' f c] inode_tail_next_block_cong[of f' f c])

lemma mount_scan_block_idx:
  assumes "i < FS_NUM_BLOCKS c" "0 < FS_PAGES_PER_BLOCK c"
  shows "inode0_idx (fst (mount_scan_block c i (m, f)))
           = (if is_inode0 c f i then of_nat i else inode0_idx m)"
proof -
  obtain f1 where o: "flash_open_page c i 0 f = (FLOG_SUCCESS, f1)" and c1: "cur f1 = Some (i, 0)"
    and st1: "store f1 = store f" "spares f1 = spares f" "bad f1 = bad f"
    using assms by (simp add: flash_open_page_def log_call_def)
  obtain f2 where b: "flash_block_is_bad f1 = (bad f i, f2)" and c2: "cur f2 = Some (i, 0)"
    and st2: "store f2 = store f" "spares f2 = spares f"
    using c1 st1 by (simp add: flash_block_is_bad_def log_call_def)
  show ?thesis
  proof (cases "bad f i")
    case True
    with o b show ?thesis by (simp add: mount_scan_block_def is_inode0_def)
  next
    case nb: False
    obtain sp f3 where rs: "flash_read_spare c 0 f2 = (sp, f3)" by (metis prod.exhaust)
    have si0: "sector_index c 0 0 = 0" by (simp add: sector_index_def)
    from read_spare_nth[of _ c 0 f2] rs c2 st2 si0
    have sp: "sp ! 0 = spares f i 0 0" "sp ! 2 = spares f i 0 2" "sp ! 3 = spares f i 0 3"
      by simp_all
    from read_spare_snd[of c 0 f2] rs have f3: "f3 = log_call (Call_read_spare 0) f2" by simp
    with c2 st2 have c3: "cur f3 = Some (i, 0)" "store f3 = store f"
      by (simp_all add: log_call_def)
    have idx: "le16 sp 2 = le16 [spares f i 0 2, spares f i 0 3] 0"
      using sp by (simp add: le16_def)
    have ts: "le32 (fst (flash_read_sector c (FLOG_INODE_INVALIDATION_SECTOR c) 0
                      sizeof_flog_timestamp_t f3)) 0
              = le32 (map (store f i (sector_index c 0 (FLOG_INODE_INVALIDATION_SECTOR c))) [0..<4]) 0"
      by (simp add: le32_def read_sector_nth c3 sizeof_defs)
    show ?thesis
    proof (cases "sp ! 0 = FLOG_BLOCK_TYPE_INODE c")
      case True
      with o b nb rs idx ts sp show ?thesis
        by (simp add: mount_scan_block_def Let_def case_prod_beta is_inode0_def)
    next
      case False
      with o b nb rs sp show ?thesis
        by (simp add: mount_scan_block_def Let_def case_prod_beta is_inode0_def)
    qed
  qed
qed

lemma mount_scan_idx_prefix:
  assumes geo: "0 < FS_PAGES_PER_BLOCK c"
  shows "k \<le> FS_NUM_BLOCKS c \<Longrightarrow>
     store (snd (fold (mount_scan_block c) [0..<k] (m0, f))) = store f
   \<and> spares (snd (fold (mount_scan_block c) [0..<k] (m0, f))) = spares f
   \<and> bad (snd (fold (mount_scan_block c) [0..<k] (m0, f))) = bad f
   \<and> inode0_idx (fst (fold (mount_scan_block c) [0..<k] (m0, f)))
        = (if filter (is_inode0 c f) [0..<k] = [] then inode0_idx m0
           else of_nat (last (filter (is_inode0 c f) [0..<k])))"
proof (induction k)
  case 0
  then show ?case by simp
next
  case (Suc k)
  obtain m f1 where st: "fold (mount_scan_block c) [0..<k] (m0, f) = (m, f1)"
    by (metis prod.exhaust)
  from Suc st have ih: "store f1 = store f" "spares f1 = spares f" "bad f1 = bad f"
    "inode0_idx m = (if filter (is_inode0 c f) [0..<k] = [] then inode0_idx m0
           else of_nat (last (filter (is_inode0 c f) [0..<k])))"
    by simp_all
  have step: "fold (mount_scan_block c) [0..<Suc k] (m0, f) = mount_scan_block c k (m, f1)"
    using st by simp
  note fl = mount_scan_block_flash[of c k m f1]
  from Suc.prems have kn: "k < FS_NUM_BLOCKS c" by simp
  from mount_scan_block_idx[OF kn geo, of m f1] is_inode0_cong[of f1 f c] ih fl
  show ?case unfolding step by simp
qed

lemma mount_scan_idx:
  assumes "0 < FS_PAGES_PER_BLOCK c" "FS_NUM_BLOCKS c \<le> 65535"
    and "filter (is_inode0 c f) [0..<FS_NUM_BLOCKS c] = [b0]"
  shows "store (snd (mount_scan c f)) = store f \<and> inode0_idx (fst (mount_scan c f)) = of_nat b0
     \<and> b0 < FS_NUM_BLOCKS c"
proof -
  from assms(3) have "b0 \<in> set (filter (is_inode0 c f) [0..<FS_NUM_BLOCKS c])" by simp
  then have "b0 < FS_NUM_BLOCKS c" by simp
  with mount_scan_idx_prefix[OF assms(1), of "FS_NUM_BLOCKS c" mount_locals_init f] assms(3)
  show ?thesis by (simp add: mount_scan_def)
qed

lemma cache_coherent_log_call:
  "cache_coherent c (s, log_call x f) = cache_coherent c (s, f)"
  by (simp add: cache_coherent_def log_call_def)

lemma cache_coherent_max_file_id:
  "cache_coherent c (s\<lparr>max_file_id := v\<rparr>, f) = cache_coherent c (s, f)"
  by (simp add: cache_coherent_def)

lemma unat_page_of_sector:
  "unat (of_nat (unat (sec :: 16 word) div n) :: 16 word) = unat sec div n"
proof -
  have a: "unat sec div n \<le> unat sec" by (rule div_le_dividend)
  have b: "unat sec < 65536" using unsigned_less[of sec, where 'a = nat] by simp
  from a b have "unat sec div n < 65536" by (rule le_less_trans)
  then show ?thesis by (simp add: unat_of_nat take_bit_nat_eq_self)
qed

lemma le32_map_prefix:
  "4 \<le> n \<Longrightarrow> le32 (map g [0..<n]) 0 = le32 [g 0, g 1, g 2, g 3] 0"
  by (simp add: le32_def numeral_2_eq_2)

lemma le32_replicate_ff:
  "4 \<le> n \<Longrightarrow> le32 (replicate n 0xFF) 0 = 0xFFFFFFFF"
  by (simp add: le32_def)

lemma open_sector_read_entry:
  assumes co: "cache_coherent c (s, f)" and geo: "0 < FS_SECTORS_PER_PAGE c"
    and o: "flog_open_sector c b sec (s, f) = (r, (s1, f1))"
    and rd: "flash_read_sector c (unat sec) 0 n f1 = (buf, f2)" and n: "4 \<le> n"
  shows "cache_coherent c (s1, f2)" "store f2 = store f"
    "le32 buf 0 = inode_entry_file_id c f b (unat sec)"
proof -
  let ?p = "unat sec div FS_SECTORS_PER_PAGE c"
  from flog_open_page_cur[OF co, of b "of_nat ?p"] o
  have cf: "cur f1 = (if unat b < FS_NUM_BLOCKS c \<and> ?p < FS_PAGES_PER_BLOCK c
            then Some (unat b, ?p) else None)"
    and st: "store f1 = store f" and co1: "cache_coherent c (s1, f1)"
    by (simp_all add: flog_open_sector_def unat_page_of_sector)
  from read_sector_snd[of c "unat sec" 0 n f1] rd
  have f2: "f2 = log_call (Call_read_sector (unat sec) 0 n) f1" by simp
  with co1 show "cache_coherent c (s1, f2)" by (simp add: cache_coherent_log_call)
  from f2 st show "store f2 = store f" by (simp add: log_call_def)
  have si: "sector_index c ?p (unat sec) = unat sec"
    by (simp add: sector_index_def)
  have pg: "?p < FS_PAGES_PER_BLOCK c \<longleftrightarrow> unat sec < FS_PAGES_PER_BLOCK c * FS_SECTORS_PER_PAGE c"
    using geo by (simp add: div_less_iff_less_mult)
  from rd have "buf = fst (flash_read_sector c (unat sec) 0 n f1)" by simp
  then show "le32 buf 0 = inode_entry_file_id c f b (unat sec)"
    using n pg le32_map_prefix[of 4 "store f (unat b) (unat sec)"]
    by (simp add: flash_read_sector_def cf st si inode_entry_file_id_def le32_map_prefix
          le32_replicate_ff FLOG_FILE_ID_INVALID_def)
qed

lemma open_sector_coherent:
  assumes co: "cache_coherent c (s, f)"
    and o: "flog_open_sector c b sec (s, f) = (r, (s1, f1))"
    and rd: "flash_read_sector c k off n f1 = (buf, f2)"
  shows "cache_coherent c (s1, f2)" "store f2 = store f"
proof -
  from flog_open_page_cur[OF co, of b "of_nat (unat sec div FS_SECTORS_PER_PAGE c)"] o
  have st: "store f1 = store f" and co1: "cache_coherent c (s1, f1)"
    by (simp_all add: flog_open_sector_def)
  from read_sector_snd[of c k off n f1] rd
  have f2: "f2 = log_call (Call_read_sector k off n) f1" by simp
  with co1 show "cache_coherent c (s1, f2)" by (simp add: cache_coherent_log_call)
  from f2 st show "store f2 = store f" by (simp add: log_call_def)
qed

lemma open_page_read_tail:
  assumes co: "cache_coherent c (s, f)"
    and o: "flog_open_page c b 0 (s, f) = (r, (s1, f1))"
    and rd: "flash_read_sector c (FLOG_INODE_TAIL_SECTOR c) 0 sizeof_flog_block_idx_t f1 = (buf, f2)"
  shows "cache_coherent c (s1, f2)" "store f2 = store f"
    "le16 buf 0 = inode_tail_next_block c f b"
proof -
  from flog_open_page_cur[OF co, of b 0] o
  have cf: "cur f1 = (if unat b < FS_NUM_BLOCKS c \<and> 0 < FS_PAGES_PER_BLOCK c
            then Some (unat b, 0) else None)"
    and st: "store f1 = store f" and co1: "cache_coherent c (s1, f1)"
    by simp_all
  from read_sector_snd[of c "FLOG_INODE_TAIL_SECTOR c" 0 sizeof_flog_block_idx_t f1] rd
  have f2: "f2 = log_call (Call_read_sector (FLOG_INODE_TAIL_SECTOR c) 0 sizeof_flog_block_idx_t) f1"
    by simp
  with co1 show "cache_coherent c (s1, f2)" by (simp add: cache_coherent_log_call)
  from f2 st show "store f2 = store f" by (simp add: log_call_def)
  from rd have "buf = fst (flash_read_sector c (FLOG_INODE_TAIL_SECTOR c) 0 sizeof_flog_block_idx_t f1)"
    by simp
  then show "le16 buf 0 = inode_tail_next_block c f b"
    by (simp add: flash_read_sector_def cf st inode_tail_next_block_def sizeof_flog_block_idx_t_def
         le16_def upt_rec_numeral)
qed

lemma iterator_init_chain:
  assumes co: "cache_coherent c (s, f)"
    and ini: "flog_inode_iterator_init c b (s, f) = (iter, (s1, f1))"
  shows "cache_coherent c (s1, f1)" "store f1 = store f" "max_file_id s1 = max_file_id s"
    "it_block iter = b" "it_sector iter = of_nat (FS_SECTORS_PER_PAGE c)"
    "it_next_block iter = inode_tail_next_block c f b"
proof -
  obtain r s2 f2 where o: "flog_open_page c b 0 (s, f) = (r, (s2, f2))" by (metis prod.exhaust)
  obtain buf f3 where rd:
    "flash_read_sector c (FLOG_INODE_TAIL_SECTOR c) 0 sizeof_flog_block_idx_t f2 = (buf, f3)"
    by (metis prod.exhaust)
  from ini o rd have e: "s1 = s2" "f1 = f3" "it_block iter = b"
    "it_sector iter = of_nat (FS_SECTORS_PER_PAGE c)" "it_next_block iter = le16 buf 0"
    by (auto simp: flog_inode_iterator_init_def)
  note t = open_page_read_tail[OF co o rd]
  from flog_open_page_cache_frame[OF o] have "max_file_id s2 = max_file_id s"
    by (simp add: cache_frame_def)
  with e t show "cache_coherent c (s1, f1)" "store f1 = store f" "max_file_id s1 = max_file_id s"
    "it_block iter = b" "it_sector iter = of_nat (FS_SECTORS_PER_PAGE c)"
    "it_next_block iter = inode_tail_next_block c f b"
    by simp_all
qed

lemma iterator_next_chain:
  assumes co: "cache_coherent c (s, f)"
    and nx: "flog_inode_iterator_next c iter (s, f) = (iter', (s1, f1))"
  shows "cache_coherent c (s1, f1)" "store f1 = store f" "max_file_id s1 = max_file_id s"
    "unat (it_sector iter + 2) < FS_PAGES_PER_BLOCK c * FS_SECTORS_PER_PAGE c \<Longrightarrow>
       it_block iter' = it_block iter \<and> it_sector iter' = it_sector iter + 2
       \<and> it_next_block iter' = it_next_block iter"
    "\<not> unat (it_sector iter + 2) < FS_PAGES_PER_BLOCK c * FS_SECTORS_PER_PAGE c \<Longrightarrow>
       it_block iter' = it_next_block iter \<and> it_sector iter' = of_nat (FS_SECTORS_PER_PAGE c)
       \<and> it_next_block iter' = inode_tail_next_block c f (it_next_block iter)"
proof -
  have all: "cache_coherent c (s1, f1) \<and> store f1 = store f \<and> max_file_id s1 = max_file_id s
    \<and> (unat (it_sector iter + 2) < FS_PAGES_PER_BLOCK c * FS_SECTORS_PER_PAGE c \<longrightarrow>
       it_block iter' = it_block iter \<and> it_sector iter' = it_sector iter + 2
       \<and> it_next_block iter' = it_next_block iter)
    \<and> (\<not> unat (it_sector iter + 2) < FS_PAGES_PER_BLOCK c * FS_SECTORS_PER_PAGE c \<longrightarrow>
       it_block iter' = it_next_block iter \<and> it_sector iter' = of_nat (FS_SECTORS_PER_PAGE c)
       \<and> it_next_block iter' = inode_tail_next_block c f (it_next_block iter))"
  proof (cases "unat (it_sector iter + 2) < FS_PAGES_PER_BLOCK c * FS_SECTORS_PER_PAGE c")
    case True
    with nx co show ?thesis by (auto simp: flog_inode_iterator_next_def Let_def)
  next
    case False
    obtain r s2 f2 where o: "flog_open_page c (it_next_block iter) 0 (s, f) = (r, (s2, f2))"
      by (metis prod.exhaust)
    obtain buf f3 where rd:
      "flash_read_sector c (FLOG_INODE_TAIL_SECTOR c) 0 sizeof_flog_block_idx_t f2 = (buf, f3)"
      by (metis prod.exhaust)
    from nx o rd False have e: "s1 = s2" "f1 = f3" "it_block iter' = it_next_block iter"
      "it_sector iter' = of_nat (FS_SECTORS_PER_PAGE c)" "it_next_block iter' = le16 buf 0"
      by (auto simp: flog_inode_iterator_next_def Let_def)
    note t = open_page_read_tail[OF co o rd]
    from flog_open_page_cache_frame[OF o] have "max_file_id s2 = max_file_id s"
      by (simp add: cache_frame_def)
    with e t False show ?thesis by simp
  qed
  then show "cache_coherent c (s1, f1)" "store f1 = store f" "max_file_id s1 = max_file_id s"
    "unat (it_sector iter + 2) < FS_PAGES_PER_BLOCK c * FS_SECTORS_PER_PAGE c \<Longrightarrow>
       it_block iter' = it_block iter \<and> it_sector iter' = it_sector iter + 2
       \<and> it_next_block iter' = it_next_block iter"
    "\<not> unat (it_sector iter + 2) < FS_PAGES_PER_BLOCK c * FS_SECTORS_PER_PAGE c \<Longrightarrow>
       it_block iter' = it_next_block iter \<and> it_sector iter' = of_nat (FS_SECTORS_PER_PAGE c)
       \<and> it_next_block iter' = inode_tail_next_block c f (it_next_block iter)"
    by simp_all
qed

lemma cache_frame_max_file_id: "cache_frame s s' \<Longrightarrow> max_file_id s' = max_file_id s"
  by (simp add: cache_frame_def)

lemma mount_check_allocation_max_file_id:
  "mount_check_allocation c la (s, f) = (s', f') \<Longrightarrow> max_file_id s' = max_file_id s"
  by (auto simp: mount_check_allocation_def Let_def
        split: if_splits prod.splits
        dest!: flog_open_sector_cache_frame flog_open_page_cache_frame cache_frame_max_file_id)

lemma unat_sector_plus2:
  assumes "unat (sec :: 16 word) + 2 < 65536"
  shows "unat (sec + 2) = unat sec + 2"
proof -
  have "unat (sec + 2) = (unat sec + unat (2 :: 16 word)) mod 2 ^ LENGTH(16)"
    by (rule unat_word_ariths(1))
  with assms show ?thesis by simp
qed

lemma unat_of_nat_sectors:
  "n < 65536 \<Longrightarrow> unat (of_nat n :: 16 word) = n"
  by (simp add: unat_of_nat take_bit_nat_eq_self)

lemma sectors_per_page_small:
  assumes "0 < (p :: nat)" "p * n + 2 < 65536"
  shows "n < 65536"
proof -
  from assms(1) obtain q where "p = Suc q" by (cases p) auto
  then have "n \<le> p * n" by simp
  with assms(2) show ?thesis by linarith
qed

lemma mount_walk_chain:
  assumes geo: "0 < FS_SECTORS_PER_PAGE c" "0 < FS_PAGES_PER_BLOCK c"
    "FS_PAGES_PER_BLOCK c * FS_SECTORS_PER_PAGE c + 2 < 65536"
  shows "mount_walk n c iter la ld (s, f) = Some (la', ld', (s', f')) \<Longrightarrow>
     cache_coherent c (s, f) \<Longrightarrow>
     it_next_block iter = inode_tail_next_block c f (it_block iter) \<Longrightarrow>
     \<exists>ids. inode_chain_file_ids n c f (it_block iter) (unat (it_sector iter)) = Some ids
        \<and> max_file_id s' = (if ids = [] then max_file_id s else last ids)"
proof (induction n arbitrary: iter la ld s f)
  case 0
  then show ?case by simp
next
  case (Suc n)
  let ?b = "it_block iter"
  let ?sec = "unat (it_sector iter)"
  let ?PS = "FS_PAGES_PER_BLOCK c * FS_SECTORS_PER_PAGE c"
  note co = Suc.prems(2)
  note inv = Suc.prems(3)
  obtain r1 s1 f1 where o1: "flog_open_sector c ?b (it_sector iter) (s, f) = (r1, (s1, f1))"
    by (metis prod.exhaust)
  obtain buf f2 where rd1: "flash_read_sector c ?sec 0
             sizeof_flog_inode_file_allocation_header_t f1 = (buf, f2)"
    by (metis prod.exhaust)
  have n16: "4 \<le> sizeof_flog_inode_file_allocation_header_t" by (simp add: sizeof_defs)
  note e1 = open_sector_read_entry[OF co geo(1) o1 rd1 n16]
  from flog_open_sector_cache_frame[OF o1] have m1: "max_file_id s1 = max_file_id s"
    by (rule cache_frame_max_file_id)
  let ?id = "inode_entry_file_id c f ?b ?sec"
  show ?case
  proof (cases "?id = FLOG_FILE_ID_INVALID")
    case True
    with e1(3) have iv: "le32 buf 0 = FLOG_FILE_ID_INVALID" by simp
    with Suc.prems(1) o1 rd1 have "s' = s1" by simp
    with m1 True show ?thesis by simp
  next
    case False
    then have rng: "?sec < ?PS"
      by (auto simp: inode_entry_file_id_def split: if_splits)
    with geo(3) have nw: "?sec + 2 < 65536" by simp
    note p2 = unat_sector_plus2[OF nw]
    obtain r2 s2 f3 where o2: "flog_open_sector c ?b (it_sector iter + 1) (s1, f2) = (r2, (s2, f3))"
      by (metis prod.exhaust)
    obtain ibuf f4 where rd2: "flash_read_sector c (?sec + 1) 0
               sizeof_flog_inode_file_invalidation_t f3 = (ibuf, f4)"
      by (metis prod.exhaust)
    note e2 = open_sector_coherent[OF e1(1) o2 rd2]
    let ?s3 = "s2\<lparr>max_file_id := le32 buf 0\<rparr>"
    from e2(1) have co3: "cache_coherent c (?s3, f4)" by (simp add: cache_coherent_max_file_id)
    obtain iter' s4 f5 where nx: "flog_inode_iterator_next c iter (?s3, f4) = (iter', (s4, f5))"
      by (metis prod.exhaust)
    note e3 = iterator_next_chain[OF co3 nx]
    from e1(2) e2(2) e3(2) have st5: "store f5 = store f" by simp
    from e2(2) e1(2) have st4: "store f4 = store f" by simp
    from e3(3) e1(3) have m4: "max_file_id s4 = ?id" by simp
    from e1(3) False have nv: "le32 buf 0 \<noteq> FLOG_FILE_ID_INVALID" by simp
    from Suc.prems(1) o1 rd1 nv o2 rd2 nx
    obtain la2 ld2 where rec: "mount_walk n c iter' la2 ld2 (s4, f5) = Some (la', ld', (s', f'))"
      by (simp add: Let_def)
    have tl: "inode_tail_next_block c f5 = inode_tail_next_block c f"
      "inode_tail_next_block c f4 = inode_tail_next_block c f"
      by (rule inode_tail_next_block_cong[OF st5], rule inode_tail_next_block_cong[OF st4])
    show ?thesis
    proof (cases "?sec + 2 < ?PS")
      case True
      with e3(4) p2 have it: "it_block iter' = ?b" "it_sector iter' = it_sector iter + 2"
        "it_next_block iter' = it_next_block iter" by simp_all
      from it inv tl have inv': "it_next_block iter' = inode_tail_next_block c f5 (it_block iter')"
        by simp
      from Suc.IH[OF rec e3(1) inv'] obtain ids where
        ch: "inode_chain_file_ids n c f5 (it_block iter') (unat (it_sector iter')) = Some ids"
        and mx: "max_file_id s' = (if ids = [] then max_file_id s4 else last ids)" by blast
      from ch it p2 inode_chain_file_ids_cong[OF st5, of n c ?b "?sec + 2"]
      have "inode_chain_file_ids n c f ?b (?sec + 2) = Some ids" by simp
      with False True have "inode_chain_file_ids (Suc n) c f ?b ?sec = Some (?id # ids)"
        by simp
      with mx m4 show ?thesis by simp
    next
      case nb: False
      with e3(5) p2 have it: "it_block iter' = it_next_block iter"
        "it_sector iter' = of_nat (FS_SECTORS_PER_PAGE c)"
        "it_next_block iter' = inode_tail_next_block c f4 (it_next_block iter)" by simp_all
      from it tl have inv': "it_next_block iter' = inode_tail_next_block c f5 (it_block iter')"
        by simp
      from sectors_per_page_small[OF geo(2,3)]
      have us: "unat (of_nat (FS_SECTORS_PER_PAGE c) :: 16 word) = FS_SECTORS_PER_PAGE c"
        by (rule unat_of_nat_sectors)
      from Suc.IH[OF rec e3(1) inv'] obtain ids where
        ch: "inode_chain_file_ids n c f5 (it_block iter') (unat (it_sector iter')) = Some ids"
        and mx: "max_file_id s' = (if ids = [] then max_file_id s4 else last ids)" by blast
      from ch it us inv
        inode_chain_file_ids_cong[OF st5, of n c "inode_tail_next_block c f ?b" "FS_SECTORS_PER_PAGE c"]
      have "inode_chain_file_ids n c f (inode_tail_next_block c f ?b) (FS_SECTORS_PER_PAGE c) = Some ids"
        by simp
      with False nb have "inode_chain_file_ids (Suc n) c f ?b ?sec = Some (?id # ids)"
        by simp
      with mx m4 show ?thesis by simp
    qed
  qed
qed

lemma last_is_Max:
  fixes xs :: "('a :: linorder) list"
  shows "sorted_wrt (<) xs \<Longrightarrow> xs \<noteq> [] \<Longrightarrow> last xs = Max (set xs)"
proof (induction xs)
  case Nil
  then show ?case by simp
next
  case (Cons x xs)
  show ?case
  proof (cases "xs = []")
    case True
    then show ?thesis by simp
  next
    case False
    with Cons have l: "last xs = Max (set xs)" by simp
    from False have "last xs \<in> set xs" by simp
    with Cons.prems have "x < last xs" by auto
    with l have "max x (Max (set xs)) = Max (set xs)" by (simp add: max_absorb2 less_imp_le)
    with False l show ?thesis by simp
  qed
qed

text \<open>
  Claim C7, as amended. Let \<^verbatim>\<open>flogfs_mount\<close> return success from a state whose
  page cache is closed (\<open>page_open = 0\<close>, as \<^verbatim>\<open>flogfs_init\<close> leaves it), on a medium
  that has exactly one inode block 0, block \<open>b0\<close>. Then the inode chain of the
  medium, read from its bytes from the first entry of block \<open>b0\<close> on, ends within
  the iterations the mount made, and \<open>max_file_id\<close> is the file id of the last
  entry of that chain, live or deleted; it is the largest file id of the chain
  when the ids of the chain increase strictly. When the chain has no entry,
  \<open>max_file_id\<close> is what it was at entry (0 after \<^verbatim>\<open>flogfs_init\<close>). The medium is
  the one the mount found. The geometry has at least one page per block and one
  sector per page, its sector numbers fit the 16-bit sector of the iterator with
  room for one step, and its block numbers are below the invalid block index.
\<close>

theorem C7_max_file_id:
  assumes mt: "flogfs_mount fuel c (s, f) = Some (FLOG_SUCCESS, (s', f'))"
    and closed: "page_open s = 0"
    and one: "filter (is_inode0 c f) [0..<FS_NUM_BLOCKS c] = [b0]"
    and geo: "0 < FS_SECTORS_PER_PAGE c" "0 < FS_PAGES_PER_BLOCK c"
      "FS_PAGES_PER_BLOCK c * FS_SECTORS_PER_PAGE c + 2 < 65536"
      "FS_NUM_BLOCKS c \<le> 65535"
  shows "\<exists>ids. inode_chain_file_ids fuel c f (of_nat b0) (FS_SECTORS_PER_PAGE c) = Some ids
        \<and> max_file_id s' = (if ids = [] then max_file_id s else last ids)
        \<and> (sorted_wrt (<) ids \<and> ids \<noteq> [] \<longrightarrow> max_file_id s' = Max (set ids))"
proof -
  let ?f0 = "flash_lock f"
  have fl: "store ?f0 = store f" "spares ?f0 = spares f" "bad ?f0 = bad f"
    by (simp_all add: flash_lock_def log_call_def)
  from one is_inode0_cong[OF fl, of c]
  have one0: "filter (is_inode0 c ?f0) [0..<FS_NUM_BLOCKS c] = [b0]" by simp
  obtain m f1 where sc: "mount_scan c ?f0 = (m, f1)" by (metis prod.exhaust)
  from mount_scan_idx[OF geo(2) geo(4) one0] sc fl
  have st1: "store f1 = store f" and ix: "inode0_idx m = of_nat b0" and b0: "b0 < FS_NUM_BLOCKS c"
    by simp_all
  have ni: "inode0_idx m \<noteq> FLOG_BLOCK_IDX_INVALID"
  proof
    assume "inode0_idx m = FLOG_BLOCK_IDX_INVALID"
    with mt sc show False by (simp add: flogfs_mount_def Let_def)
  qed
  have co0: "cache_coherent c (fs_lock s, f1)"
    using closed by (simp add: cache_coherent_def fs_lock_def)
  obtain iter s1 f2 where ini: "flog_inode_iterator_init c (inode0_idx m) (fs_lock s, f1) = (iter, (s1, f2))"
    by (metis prod.exhaust)
  note i = iterator_init_chain[OF co0 ini]
  from i(2) st1 have st2: "store f2 = store f" by simp
  from i(3) have m1: "max_file_id s1 = max_file_id s" by (simp add: fs_lock_def)
  from mt sc ni ini obtain la ld s2 f3 where
    wk: "mount_walk fuel c iter (last_allocation m) last_deletion_init (s1, f2) = Some (la, ld, (s2, f3))"
    by (auto simp: flogfs_mount_def Let_def split: option.splits)
  obtain s3 f4 where al: "mount_check_allocation c la (s2, f3) = (s3, f4)" by (metis prod.exhaust)
  from mt sc ni ini wk al obtain ok s4 f5 where
    de: "mount_check_deletion c ld (s3, f4) = Some (ok, (s4, f5))"
    by (auto simp: flogfs_mount_def Let_def split: option.splits)
  from mt sc ni ini wk al de have e: "s' = fs_unlock s4"
    by (auto simp: flogfs_mount_def Let_def)
  from mount_check_allocation_max_file_id[OF al]
    cache_frame_max_file_id[OF mount_check_deletion_frame[OF de]] e
  have m4: "max_file_id s' = max_file_id s2" by (simp add: fs_unlock_def)
  have inv: "it_next_block iter = inode_tail_next_block c f2 (it_block iter)"
    using i(4,6) inode_tail_next_block_cong[of f2 f1 c] i(2) by simp
  from sectors_per_page_small[OF geo(2,3)]
  have us: "unat (of_nat (FS_SECTORS_PER_PAGE c) :: 16 word) = FS_SECTORS_PER_PAGE c"
    by (rule unat_of_nat_sectors)
  from mount_walk_chain[OF geo(1,2,3) wk i(1) inv] obtain ids where
    ch: "inode_chain_file_ids fuel c f2 (it_block iter) (unat (it_sector iter)) = Some ids"
    and mx: "max_file_id s2 = (if ids = [] then max_file_id s1 else last ids)" by blast
  from ch i(4,5) ix us inode_chain_file_ids_cong[OF st2, of fuel c "of_nat b0" "FS_SECTORS_PER_PAGE c"]
  have ch': "inode_chain_file_ids fuel c f (of_nat b0) (FS_SECTORS_PER_PAGE c) = Some ids" by simp
  from mx m4 m1 have r: "max_file_id s' = (if ids = [] then max_file_id s else last ids)" by simp
  with last_is_Max[of ids]
  have "sorted_wrt (<) ids \<and> ids \<noteq> [] \<longrightarrow> max_file_id s' = Max (set ids)" by simp
  with ch' r show ?thesis by blast
qed

text \<open>
  Claim C7, counterexample. First: the medium with file 1 is mounted
  (\<open>max_file_id = 1\<close>) and formatted; the chain of the formatted medium has no
  entry, and the mount that follows succeeds with \<open>max_file_id\<close> still 1, since
  the mount assigns \<open>max_file_id\<close> only at an entry. Second: on the medium of six
  blocks the chain holds the files 1, 2 and 3. From a state whose page cache says
  that page 0 of block 0 is open, the mount does not open inode block 0 at the
  driver, which stands on block 5 after the scan; it takes the tail sector of
  block 5 for that of block 0, goes from block 0 to block 4, and succeeds with
  \<open>max_file_id = 2\<close>.
\<close>

theorem C7_counterexample:
  "(case flogfs_mount 3 cfg (flogfs_static, medium_live) of
      None \<Rightarrow> False
    | Some (r1, (s1, f1)) \<Rightarrow>
        r1 = FLOG_SUCCESS \<and> max_file_id s1 = 1
        \<and> (case flogfs_format cfg (s1, f1) of
             (r2, (s2, f2)) \<Rightarrow>
               r2 = FLOG_SUCCESS
               \<and> filter (is_inode0 cfg f2) [0..<FS_NUM_BLOCKS cfg] = [0]
               \<and> inode_chain_file_ids 3 cfg f2 0 (FS_SECTORS_PER_PAGE cfg) = Some []
               \<and> (case flogfs_mount 3 cfg (s2, f2) of
                    None \<Rightarrow> False
                  | Some (r3, (s3, f3)) \<Rightarrow> r3 = FLOG_SUCCESS \<and> max_file_id s3 = 1)))
   \<and> filter (is_inode0 cfg6 medium_chain) [0..<FS_NUM_BLOCKS cfg6] = [0]
   \<and> inode_chain_file_ids 4 cfg6 medium_chain 0 (FS_SECTORS_PER_PAGE cfg6) = Some [1, 2, 3]
   \<and> (case flogfs_mount 4 cfg6
              (flogfs_static\<lparr>page_open := 1, page_open_result := FLOG_SUCCESS\<rparr>, medium_chain) of
         None \<Rightarrow> False
       | Some (r, (s', f')) \<Rightarrow> r = FLOG_SUCCESS \<and> max_file_id s' = 2)"
  by code_simp

text \<open>
  Witness for C7: the medium of six blocks, mounted from the zero-initialised
  state. The chain holds the files 1, 2 and 3 in three inode blocks, and
  \<open>max_file_id\<close> is 3.
\<close>

theorem C7_max_file_id_witness:
  "(case flogfs_mount 4 cfg6 (flogfs_static, medium_chain) of
      None \<Rightarrow> False
    | Some (r, (s', f')) \<Rightarrow> r = FLOG_SUCCESS \<and> max_file_id s' = 3)
   \<and> page_open flogfs_static = 0
   \<and> filter (is_inode0 cfg6 medium_chain) [0..<FS_NUM_BLOCKS cfg6] = [0]
   \<and> inode_chain_file_ids 4 cfg6 medium_chain 0 (FS_SECTORS_PER_PAGE cfg6) = Some [1, 2, 3]
   \<and> sorted_wrt (<) [1, 2, 3 :: 32 word]
   \<and> Max (set [1, 2, 3 :: 32 word]) = 3"
proof -
  let ?mt = "flogfs_mount 4 cfg6 (flogfs_static, medium_chain)"
  have r: "map_option fst ?mt = Some FLOG_SUCCESS" by code_simp
  then obtain s' f' where m: "?mt = Some (FLOG_SUCCESS, (s', f'))" by (cases ?mt) auto
  have cl: "page_open flogfs_static = 0" by (simp add: flogfs_static_def)
  have one: "filter (is_inode0 cfg6 medium_chain) [0..<FS_NUM_BLOCKS cfg6] = [0]" by code_simp
  have geo: "0 < FS_SECTORS_PER_PAGE cfg6" "0 < FS_PAGES_PER_BLOCK cfg6"
    "FS_PAGES_PER_BLOCK cfg6 * FS_SECTORS_PER_PAGE cfg6 + 2 < 65536" "FS_NUM_BLOCKS cfg6 \<le> 65535"
    by (simp_all add: cfg6_def cfg_def)
  have ch: "inode_chain_file_ids 4 cfg6 medium_chain 0 (FS_SECTORS_PER_PAGE cfg6) = Some [1, 2, 3]"
    by code_simp
  have so: "sorted_wrt (<) [1, 2, 3 :: 32 word]" by simp
  from C7_max_file_id[OF m cl one geo] ch so
  have "max_file_id s' = 3 \<and> Max (set [1, 2, 3 :: 32 word]) = 3" by simp
  with m cl one ch so show ?thesis by simp
qed

end
